theory Spec2Isabelle
  imports Complex_Main "HOL-Library.Multiset"
begin

section \<open>Strings\<close>

text \<open>
  A JavaScript string is modelled as a \<^typ>\<open>string\<close>: a list of code units below 256.
  \<open>String.prototype.trim\<close> removes the ECMAScript white space and line terminators
  from both ends; below 256 these are TAB, LF, VT, FF, CR, SP and NBSP.
\<close>

definition whitespace_chars :: "char list" where
  "whitespace_chars = [CHR 0x09, CHR 0x0A, CHR 0x0B, CHR 0x0C, CHR 0x0D, CHR 0x20, CHR 0xA0]"

definition is_whitespace :: "char \<Rightarrow> bool" where
  "is_whitespace c = (c \<in> set whitespace_chars)"

definition trim :: "string \<Rightarrow> string" where
  "trim s = rev (dropWhile is_whitespace (rev (dropWhile is_whitespace s)))"

text \<open>\<open>hay.startsWith(needle)\<close> and \<open>hay.includes(needle)\<close>.\<close>

fun startsWith :: "string \<Rightarrow> string \<Rightarrow> bool" where
  "startsWith hay [] = True"
| "startsWith [] (n # ns) = False"
| "startsWith (h # hs) (n # ns) = (h = n \<and> startsWith hs ns)"

fun str_includes :: "string \<Rightarrow> string \<Rightarrow> bool" where
  "str_includes [] needle = (needle = [])"
| "str_includes (h # hs) needle = (startsWith (h # hs) needle \<or> str_includes hs needle)"

text \<open>
  \<open>s.replace(pat, '')\<close> with a string pattern: the first occurrence of \<open>pat\<close> is
  removed, the rest of the string is kept.
\<close>

fun remove_first :: "string \<Rightarrow> string \<Rightarrow> string" where
  "remove_first pat [] = []"
| "remove_first pat (c # cs) =
     (if startsWith (c # cs) pat then drop (length pat) (c # cs)
      else c # remove_first pat cs)"

text \<open>
  \<open>s.replace(/^\/|\/$/g, '')\<close>: the global replacement scans from the left; the first
  alternative removes a slash at index 0, the second a slash that is the last code unit
  of the input (and was not already consumed as the leading one).
\<close>

definition strip_leading_slash :: "string \<Rightarrow> string" where
  "strip_leading_slash s = (case s of [] \<Rightarrow> [] | c # cs \<Rightarrow> if c = CHR ''/'' then cs else s)"

definition strip_trailing_slash :: "string \<Rightarrow> string" where
  "strip_trailing_slash s = (if s \<noteq> [] \<and> last s = CHR ''/'' then butlast s else s)"

definition normalizePath :: "string \<Rightarrow> string" where
  "normalizePath cssPath = strip_trailing_slash (strip_leading_slash (trim cssPath))"

section \<open>Errors (utils/errorHandler.js)\<close>

datatype ErrorTypes = ASSET_LOADING | GAME_INITIALIZATION | RUNTIME | NETWORK | RESOURCE

text \<open>
  An error value is a \<open>GameError\<close> with its message and its \<open>type\<close> field, or any other
  \<open>Error\<close>. The \<open>type\<close> is \<open>None\<close> when the constructor was given a value that is no
  member of \<open>ErrorTypes\<close> (the \<open>default\<close> branch of the switch in \<open>handleError\<close>).
\<close>

datatype js_error = GameError string "ErrorTypes option" | OtherError string

text \<open>
  The six user-facing texts of \<open>handleError\<close> (Bulgarian sentences in the source), one
  constructor per text, in the order of the source.
\<close>

datatype user_message =
    MsgResourcesNotLoaded
  | MsgGameStartProblem
  | MsgSomethingWentWrong
  | MsgConnectionProblem
  | MsgMissingResources
  | MsgUnexpected

fun user_message_for :: "js_error \<Rightarrow> user_message" where
  "user_message_for (GameError m (Some ASSET_LOADING)) = MsgResourcesNotLoaded"
| "user_message_for (GameError m (Some GAME_INITIALIZATION)) = MsgGameStartProblem"
| "user_message_for (GameError m (Some RUNTIME)) = MsgSomethingWentWrong"
| "user_message_for (GameError m (Some NETWORK)) = MsgConnectionProblem"
| "user_message_for (GameError m (Some RESOURCE)) = MsgMissingResources"
| "user_message_for (GameError m None) = MsgUnexpected"
| "user_message_for (OtherError m) = MsgUnexpected"

text \<open>
  What a \<open>throw\<close> or a rejected promise carries: a value whose \<open>message\<close> can be read
  (an error object), or \<open>null\<close> or \<open>undefined\<close>, on which reading \<open>message\<close> raises a
  \<open>TypeError\<close>.
\<close>

datatype thrown = ErrorValue js_error | NullOrUndefined

definition type_error :: js_error where
  "type_error = OtherError ''TypeError: cannot read properties of null or undefined''"

text \<open>A call either returns or throws; in both cases the state it leaves behind is kept.\<close>

datatype 's completion = Normal 's | Throws thrown 's

section \<open>The document and the application state\<close>

text \<open>
  An element built by the markup parser or by a game: its tag name, its attributes in
  the order of the markup, and the screen identifiers its click listeners pass to
  \<open>loadScreen\<close>, in the order the listeners were added. Text nodes are not kept.
\<close>

record dom_element =
  tag_name :: string
  attributes :: "(string \<times> string) list"
  click_listeners :: "string list"

text \<open>
  The body is the list of its elements in document order. The elements the code finds by
  their own means have their own constructors: the placeholder (the \<open>div\<close> whose style has
  \<open>z-index: 9998\<close>), the element of the loading indicator, and the element with id
  \<open>error-container\<close> with the message it shows. Every other element is \<open>Generic\<close>.
\<close>

datatype element =
    Placeholder
  | LoadingScreenEl
  | ErrorContainer user_message
  | Generic dom_element

record link =
  link_href :: string
  link_rel :: string

datatype loading_message =
    MsgDefault
  | MsgLoadingOf string
  | MsgLoadingStyles
  | MsgLoadingGame

text \<open>
  The \<open>LoadingScreen\<close> object of the application: \<open>element_present\<close> is
  \<open>this.element !== null\<close> (the message and progress elements are created and reset
  together with it), \<open>progress\<close> holds the arguments of the last \<open>updateProgress\<close>.
\<close>

record loading_screen =
  element_present :: bool
  isHiding :: bool
  message :: loading_message
  progress :: "(nat \<times> nat) option"

datatype sound_command =
    Play string string
  | Stop string
  | SetVolume string rat

record report =
  report_context :: string
  report_error :: js_error

text \<open>
  The state one call works on. \<open>loadedCSS\<close> is the \<open>Set\<close> of the application, kept in
  insertion order; \<open>head_links\<close> are the \<open>link\<close> elements of \<open>document.head\<close> in
  document order (every stylesheet link the sources attach is a child of the head);
  \<open>reports\<close> are the structured \<open>console.error\<close> entries written by \<open>handleError\<close>,
  \<open>console_errors\<close> the other \<open>console.error\<close> lines, \<open>warnings\<close> the
  \<open>console.warn\<close> lines; \<open>location_href\<close> is the last value assigned to
  \<open>window.location.href\<close>. \<open>console.log\<close> lines and timer callbacks, which run after
  the call has completed, are not part of the state. A call is followed from its start to
  its completion: what other callbacks do to the document while the call waits for a
  stylesheet or a module is not modelled.
\<close>

record app_state =
  loadedCSS :: "string list"
  head_links :: "link list"
  body :: "element list"
  loadingScreen :: loading_screen
  screens_home :: "string option"
  reports :: "report list"
  console_errors :: "(string \<times> thrown) list"
  warnings :: "string list"
  sounds :: "sound_command list"
  location_href :: "string option"

section \<open>handleError\<close>

text \<open>
  \<open>showUserFriendlyError\<close>: the element with id \<open>error-container\<close> is reused when the
  document has one, else created and appended to the body; its content becomes the
  message.
\<close>

fun set_error_container :: "user_message \<Rightarrow> element list \<Rightarrow> element list option" where
  "set_error_container m [] = None"
| "set_error_container m (ErrorContainer old # es) = Some (ErrorContainer m # es)"
| "set_error_container m (e # es) = map_option ((#) e) (set_error_container m es)"

definition showUserFriendlyError :: "user_message \<Rightarrow> app_state \<Rightarrow> app_state" where
  "showUserFriendlyError m s =
     (case set_error_container m (body s) of
        Some b \<Rightarrow> s\<lparr>body := b\<rparr>
      | None \<Rightarrow> s\<lparr>body := body s @ [ErrorContainer m]\<rparr>)"

definition handleError ::
  "js_error \<Rightarrow> string \<Rightarrow> (app_state \<Rightarrow> app_state completion) option \<Rightarrow> app_state
     \<Rightarrow> app_state completion" where
  "handleError error context fallback s =
     (let s1 = s\<lparr>reports := reports s @ [\<lparr>report_context = context, report_error = error\<rparr>]\<rparr>;
          s2 = showUserFriendlyError (user_message_for error) s1
      in case fallback of
           None \<Rightarrow> Normal s2
         | Some f \<Rightarrow>
             (case f s2 of
                Normal s3 \<Rightarrow> Normal s3
              | Throws fallbackError s3 \<Rightarrow>
                  Normal (s3\<lparr>console_errors :=
                              console_errors s3 @ [(''Error in fallback handler:'', fallbackError)],
                            location_href := Some ''/''\<rparr>)))"

section \<open>The environment\<close>

text \<open>
  What the browser and the installed games decide: \<open>resolve_url\<close> is the \<open>href\<close>
  getter of a link element (the attribute resolved against the base URL of the document);
  \<open>css_load\<close> is the event fired for a link appended with the given \<open>href\<close>
  (a link with a non-empty \<open>href\<close> settles with one of the two events);
  \<open>import_module\<close> is the dynamic \<open>import\<close> of a specifier; \<open>games\<close> is the generated
  registry, its entries in the order of \<open>Object.keys\<close>. \<open>other_markup\<close> is what the browser builds from markup
  outside the fragment of the markup language that \<open>parse_fragment\<close> below reads, and
  \<open>other_selectors\<close> is what \<open>querySelector\<close> does with a selector that is not an
  attribute selector with a plain string: it finds the element at a position of the body,
  finds none, or raises a \<open>SyntaxError\<close>.
\<close>

datatype query_result = Found nat | NotFound | SyntaxError

datatype load_event = onload | onerror

record game_entry =
  script :: string
  style :: string

datatype import_result = ImportRejected thrown | Module "app_state \<Rightarrow> app_state completion"

record env =
  resolve_url :: "string \<Rightarrow> string"
  css_load :: "string \<Rightarrow> load_event"
  import_module :: "string \<Rightarrow> import_result"
  games :: "(string \<times> game_entry) list"
  other_markup :: "string \<Rightarrow> element list"
  other_selectors :: "string \<Rightarrow> element list \<Rightarrow> query_result"

section \<open>The stylesheet tracker (App.ensureCSS, App.untrackCSS)\<close>

definition set_has :: "string list \<Rightarrow> string \<Rightarrow> bool" where
  "set_has xs x = (x \<in> set xs)"

definition set_add :: "string list \<Rightarrow> string \<Rightarrow> string list" where
  "set_add xs x = (if x \<in> set xs then xs else xs @ [x])"

definition set_delete :: "string list \<Rightarrow> string \<Rightarrow> string list" where
  "set_delete xs x = removeAll x xs"

definition existingLink :: "env \<Rightarrow> string \<Rightarrow> app_state \<Rightarrow> bool" where
  "existingLink E normalizedPath s =
     list_ex (\<lambda>l. str_includes (resolve_url E (link_href l)) normalizedPath) (head_links s)"

definition ensureCSS :: "env \<Rightarrow> string \<Rightarrow> app_state \<Rightarrow> app_state completion" where
  "ensureCSS E cssPath s =
     (let normalizedPath = normalizePath cssPath in
      if set_has (loadedCSS s) normalizedPath then Normal s
      else if existingLink E normalizedPath s
      then Normal (s\<lparr>warnings := warnings s @ [''Duplicate CSS detected: '' @ normalizedPath]\<rparr>)
      else
        (let s1 = s\<lparr>head_links := head_links s
                       @ [\<lparr>link_href = normalizedPath, link_rel = ''stylesheet''\<rparr>]\<rparr>
         in case css_load E normalizedPath of
              onload \<Rightarrow> Normal (s1\<lparr>loadedCSS := set_add (loadedCSS s1) normalizedPath\<rparr>)
            | onerror \<Rightarrow>
                handleError
                  (GameError (''Failed to load CSS: '' @ normalizedPath) (Some RESOURCE))
                  ''App.ensureCSS'' None s1))"

text \<open>
  \<open>ensureCSS(undefined)\<close>: \<open>cssPath.trim()\<close> raises a \<open>TypeError\<close> inside the
  \<open>try\<close>, which the \<open>catch\<close> wraps and reports.
\<close>

definition ensureCSS_undefined :: "app_state \<Rightarrow> app_state completion" where
  "ensureCSS_undefined s =
     handleError (GameError ''CSS loading failed'' (Some ASSET_LOADING)) ''App.ensureCSS'' None s"

definition untrackCSS :: "string \<Rightarrow> app_state \<Rightarrow> app_state" where
  "untrackCSS cssPath s =
     (if set_has (loadedCSS s) cssPath
      then s\<lparr>loadedCSS := set_delete (loadedCSS s) cssPath\<rparr> else s)"

section \<open>The loading indicator (components/loadingScreen/loadingScreen.js)\<close>

text \<open>
  \<open>show\<close> creates the element and appends it to the body unless the object already has
  one. \<open>hide\<close> does nothing when a hide is under way or there is no element; otherwise
  it sets \<open>isHiding\<close> and starts the fade-out, and a timer detaches the element and
  resets the object 500 ms later.
\<close>

definition LoadingScreen_show :: "loading_message \<Rightarrow> app_state \<Rightarrow> app_state" where
  "LoadingScreen_show m s =
     (if element_present (loadingScreen s) then s
      else s\<lparr>loadingScreen := (loadingScreen s)\<lparr>element_present := True, message := m,
                                                progress := None\<rparr>,
             body := body s @ [LoadingScreenEl]\<rparr>)"

definition LoadingScreen_updateMessage :: "loading_message \<Rightarrow> app_state \<Rightarrow> app_state" where
  "LoadingScreen_updateMessage m s =
     (if element_present (loadingScreen s)
      then s\<lparr>loadingScreen := (loadingScreen s)\<lparr>message := m\<rparr>\<rparr> else s)"

definition LoadingScreen_updateProgress :: "nat \<Rightarrow> nat \<Rightarrow> app_state \<Rightarrow> app_state" where
  "LoadingScreen_updateProgress current total_steps s =
     (if element_present (loadingScreen s)
      then s\<lparr>loadingScreen := (loadingScreen s)\<lparr>progress := Some (current, total_steps)\<rparr>\<rparr> else s)"

definition LoadingScreen_hide :: "app_state \<Rightarrow> app_state" where
  "LoadingScreen_hide s =
     (if isHiding (loadingScreen s) \<or> \<not> element_present (loadingScreen s) then s
      else s\<lparr>loadingScreen := (loadingScreen s)\<lparr>isHiding := True\<rparr>\<rparr>)"

section \<open>The registry (gameModules/generatedGames.js)\<close>

text \<open>
  The registry is an object literal, so \<open>games[screenId]\<close> finds an own entry, or else
  a property inherited from \<open>Object.prototype\<close>, or else \<open>undefined\<close>. Own entries are
  objects and inherited properties are functions or objects: both are truthy, and an
  inherited one has neither \<open>script\<close> nor \<open>style\<close>.
\<close>

definition Object_keys :: "(string \<times> 'a) list \<Rightarrow> string list" where
  "Object_keys obj = map fst obj"

definition object_prototype_names :: "string list" where
  "object_prototype_names =
     [''constructor'', ''__defineGetter__'', ''__defineSetter__'', ''hasOwnProperty'',
      ''__lookupGetter__'', ''__lookupSetter__'', ''isPrototypeOf'', ''propertyIsEnumerable'',
      ''toString'', ''valueOf'', ''__proto__'', ''toLocaleString'']"

datatype property = Missing | Own game_entry | Inherited

definition games_get :: "(string \<times> game_entry) list \<Rightarrow> string \<Rightarrow> property" where
  "games_get obj k =
     (case map_of obj k of
        Some e \<Rightarrow> Own e
      | None \<Rightarrow> if k \<in> set object_prototype_names then Inherited else Missing)"

section \<open>Markup\<close>

text \<open>
  Assigning markup to the content of the body runs the markup parser of the browser.
  \<open>step\<close> is its tokenizer, one character at a time, with the states of a tag and its
  attributes; a state that hands its character on to another state is written out with
  that state's treatment of the character. Names are lower-cased, an attribute whose name the tag
  already has is dropped, and a tag cut off by the end of the input is dropped.
  The fragment that is read is markup made of \<open>div\<close> and \<open>img\<close> tags and text: character
  references, comments, declarations, NUL and CR, tags of other names and the attributes
  \<open>id\<close> and \<open>style\<close> are outside of it. Inside the fragment every start tag makes one
  element, in the order of the markup.
\<close>

record pending_tag =
  is_end_tag :: bool
  pending_name :: string
  pending_attributes :: "(string \<times> string) list"

datatype tokenizer_state =
    Data
  | TagOpen
  | EndTagOpen
  | TagName pending_tag
  | BeforeAttributeName pending_tag
  | AttributeName pending_tag string
  | AfterAttributeName pending_tag string
  | BeforeAttributeValue pending_tag string
  | ValueDoubleQuoted pending_tag string string
  | ValueSingleQuoted pending_tag string string
  | ValueUnquoted pending_tag string string
  | AfterValueQuoted pending_tag
  | SelfClosingStartTag pending_tag

datatype step_result = Next tokenizer_state | Emit dom_element | Outside

definition upper_letters :: string where
  "upper_letters = ''ABCDEFGHIJKLMNOPQRSTUVWXYZ''"

definition lower_letters :: string where
  "lower_letters = ''abcdefghijklmnopqrstuvwxyz''"

definition to_lower :: "char \<Rightarrow> char" where
  "to_lower c = (case map_of (zip upper_letters lower_letters) c of Some l \<Rightarrow> l | None \<Rightarrow> c)"

definition is_letter :: "char \<Rightarrow> bool" where
  "is_letter c = (c \<in> set upper_letters \<or> c \<in> set lower_letters)"

definition is_html_space :: "char \<Rightarrow> bool" where
  "is_html_space c = (c \<in> set [CHR 0x09, CHR 0x0A, CHR 0x0C, CHR 0x20])"

definition add_attribute :: "string \<times> string \<Rightarrow> pending_tag \<Rightarrow> pending_tag" where
  "add_attribute a p =
     (if fst a \<in> fst ` set (pending_attributes p) then p
      else p\<lparr>pending_attributes := pending_attributes p @ [a]\<rparr>)"

definition emit_tag :: "pending_tag \<Rightarrow> step_result" where
  "emit_tag p =
     (if pending_name p \<notin> set [''div'', ''img''] then Outside
      else if ''id'' \<in> fst ` set (pending_attributes p)
            \<or> ''style'' \<in> fst ` set (pending_attributes p)
      then Outside
      else if is_end_tag p then Next Data
      else Emit \<lparr>tag_name = pending_name p, attributes = pending_attributes p,
                 click_listeners = []\<rparr>)"

definition start_attribute :: "pending_tag \<Rightarrow> char \<Rightarrow> step_result" where
  "start_attribute p c =
     (if is_html_space c then Next (BeforeAttributeName p)
      else if c = CHR ''/'' then Next (SelfClosingStartTag p)
      else if c = CHR ''>'' then emit_tag p
      else Next (AttributeName p [to_lower c]))"

definition data_step :: "char \<Rightarrow> step_result" where
  "data_step c =
     (if c = CHR ''<'' then Next TagOpen else if c = CHR ''&'' then Outside else Next Data)"

fun step :: "tokenizer_state \<Rightarrow> char \<Rightarrow> step_result" where
  "step Data c = data_step c"
| "step TagOpen c =
     (if is_letter c
      then Next (TagName \<lparr>is_end_tag = False, pending_name = [to_lower c],
                          pending_attributes = []\<rparr>)
      else if c = CHR ''/'' then Next EndTagOpen
      else if c = CHR ''!'' \<or> c = CHR ''?'' then Outside
      else data_step c)"
| "step EndTagOpen c =
     (if is_letter c
      then Next (TagName \<lparr>is_end_tag = True, pending_name = [to_lower c],
                          pending_attributes = []\<rparr>)
      else if c = CHR ''>'' then Next Data
      else Outside)"
| "step (TagName p) c =
     (if is_html_space c then Next (BeforeAttributeName p)
      else if c = CHR ''/'' then Next (SelfClosingStartTag p)
      else if c = CHR ''>'' then emit_tag p
      else Next (TagName (p\<lparr>pending_name := pending_name p @ [to_lower c]\<rparr>)))"
| "step (BeforeAttributeName p) c = start_attribute p c"
| "step (AttributeName p n) c =
     (if is_html_space c then Next (AfterAttributeName p n)
      else if c = CHR ''/'' then Next (SelfClosingStartTag (add_attribute (n, []) p))
      else if c = CHR ''>'' then emit_tag (add_attribute (n, []) p)
      else if c = CHR ''='' then Next (BeforeAttributeValue p n)
      else Next (AttributeName p (n @ [to_lower c])))"
| "step (AfterAttributeName p n) c =
     (if is_html_space c then Next (AfterAttributeName p n)
      else if c = CHR ''='' then Next (BeforeAttributeValue p n)
      else start_attribute (add_attribute (n, []) p) c)"
| "step (BeforeAttributeValue p n) c =
     (if is_html_space c then Next (BeforeAttributeValue p n)
      else if c = CHR 0x22 then Next (ValueDoubleQuoted p n [])
      else if c = CHR 0x27 then Next (ValueSingleQuoted p n [])
      else if c = CHR ''>'' then emit_tag (add_attribute (n, []) p)
      else if c = CHR ''&'' then Outside
      else Next (ValueUnquoted p n [c]))"
| "step (ValueDoubleQuoted p n v) c =
     (if c = CHR 0x22 then Next (AfterValueQuoted (add_attribute (n, v) p))
      else if c = CHR ''&'' then Outside
      else Next (ValueDoubleQuoted p n (v @ [c])))"
| "step (ValueSingleQuoted p n v) c =
     (if c = CHR 0x27 then Next (AfterValueQuoted (add_attribute (n, v) p))
      else if c = CHR ''&'' then Outside
      else Next (ValueSingleQuoted p n (v @ [c])))"
| "step (ValueUnquoted p n v) c =
     (if is_html_space c then Next (BeforeAttributeName (add_attribute (n, v) p))
      else if c = CHR ''&'' then Outside
      else if c = CHR ''>'' then emit_tag (add_attribute (n, v) p)
      else Next (ValueUnquoted p n (v @ [c])))"
| "step (AfterValueQuoted p) c = start_attribute p c"
| "step (SelfClosingStartTag p) c = start_attribute p c"

text \<open>
  Running the tokenizer from a state over a string: the state reached and the elements
  made, or \<open>None\<close> when the string leaves the fragment.
\<close>

fun tokenize ::
  "tokenizer_state \<Rightarrow> string \<Rightarrow> (tokenizer_state \<times> dom_element list) option" where
  "tokenize st [] = Some (st, [])"
| "tokenize st (c # cs) =
     (if c = CHR 0x00 \<or> c = CHR 0x0D then None
      else case step st c of
             Outside \<Rightarrow> None
           | Next st' \<Rightarrow> tokenize st' cs
           | Emit e \<Rightarrow> map_option (\<lambda>(t, es). (t, e # es)) (tokenize Data cs))"

definition parse_fragment :: "string \<Rightarrow> dom_element list option" where
  "parse_fragment markup = map_option snd (tokenize Data markup)"

definition parse_markup :: "env \<Rightarrow> string \<Rightarrow> element list" where
  "parse_markup E markup =
     (case parse_fragment markup of
        Some es \<Rightarrow> map Generic es
      | None \<Rightarrow> other_markup E markup)"

text \<open>
  The \<open>class\<close> attribute: its tokens are separated by white space, and
  \<open>classList.add\<close> writes the tokens back, each once and separated by one space.
\<close>

fun tokens :: "string \<Rightarrow> string \<Rightarrow> string list" where
  "tokens acc [] = (if acc = [] then [] else [acc])"
| "tokens acc (c # cs) =
     (if is_html_space c \<or> c = CHR 0x0D
      then (if acc = [] then tokens [] cs else acc # tokens [] cs)
      else tokens (acc @ [c]) cs)"

definition class_tokens :: "dom_element \<Rightarrow> string list" where
  "class_tokens e = (case map_of (attributes e) ''class'' of None \<Rightarrow> [] | Some v \<Rightarrow> tokens [] v)"

definition has_class :: "string \<Rightarrow> dom_element \<Rightarrow> bool" where
  "has_class c e = (c \<in> set (class_tokens e))"

fun join_tokens :: "string list \<Rightarrow> string" where
  "join_tokens [] = []"
| "join_tokens [x] = x"
| "join_tokens (x # y # ys) = x @ '' '' @ join_tokens (y # ys)"

definition set_attribute :: "string \<Rightarrow> string \<Rightarrow> dom_element \<Rightarrow> dom_element" where
  "set_attribute n v e =
     (if n \<in> fst ` set (attributes e)
      then e\<lparr>attributes := map (\<lambda>a. if fst a = n then (n, v) else a) (attributes e)\<rparr>
      else e\<lparr>attributes := attributes e @ [(n, v)]\<rparr>)"

definition classList_add :: "string \<Rightarrow> dom_element \<Rightarrow> dom_element" where
  "classList_add c e =
     set_attribute ''class'' (join_tokens (rev (remdups (rev (class_tokens e @ [c]))))) e"

section \<open>The home screen (App.generateHomeScreen, App.setupFloorListeners)\<close>

text \<open>
  The markup of one floor and of the home screen, as the template literals build them:
  the game identifier is pasted into the \<open>data-game\<close> attribute and, without its first
  \<open>game\<close>, into the text, as it is. \<open>floor_word\<close> is the Bulgarian word for floor of
  the source, in the bytes of the source file.
\<close>

definition floor_word :: string where
  "floor_word = [CHR 0xD0, CHR 0x95, CHR 0xD1, CHR 0x82, CHR 0xD0, CHR 0xB0, CHR 0xD0, CHR 0xB6]"

definition floor_markup :: "string \<Rightarrow> string" where
  \<open>floor_markup gameId =
     ''<div class="floor" data-game="'' @ gameId @ ''">'' @ floor_word @ '' ''
       @ remove_first ''game'' gameId @ ''</div>''\<close>

definition indent :: "nat \<Rightarrow> string" where
  "indent n = CHR 0x0A # replicate n (CHR '' '')"

definition generateHomeScreen :: "env \<Rightarrow> string" where
  \<open>generateHomeScreen E =
     indent 12 @ ''<div class="container">''
     @ indent 16 @ ''<img src="logo.png" alt="Logo">''
     @ indent 16 @ ''<div class="building">''
     @ indent 20 @ concat (map floor_markup (rev (Object_keys (games E))))
     @ indent 16 @ ''</div>''
     @ indent 12 @ ''</div>''
     @ indent 8\<close>

text \<open>
  \<open>document.querySelector('[data-game="g"]')\<close>. When \<open>g\<close> has no double quote, no
  backslash, no line break and no NUL, the selector is an attribute selector whose
  string is \<open>g\<close>, and the result is the first element in document order whose
  \<open>data-game\<close> attribute is \<open>g\<close>; \<open>addEventListener\<close> gives it one more click listener
  calling \<open>loadScreen(g)\<close>. Any other selector is left to the browser.
\<close>

definition selector_special :: "char list" where
  "selector_special = [CHR 0x22, CHR 0x5C, CHR 0x0A, CHR 0x0C, CHR 0x0D, CHR 0x00]"

definition selector_plain :: "string \<Rightarrow> bool" where
  "selector_plain g = list_all (\<lambda>c. c \<notin> set selector_special) g"

definition data_game_selector :: "string \<Rightarrow> string" where
  \<open>data_game_selector gameId = ''[data-game="'' @ gameId @ ''"]''\<close>

definition add_click_listener :: "string \<Rightarrow> dom_element \<Rightarrow> dom_element" where
  "add_click_listener g e = e\<lparr>click_listeners := click_listeners e @ [g]\<rparr>"

fun wire_first :: "string \<Rightarrow> element list \<Rightarrow> element list option" where
  "wire_first g [] = None"
| "wire_first g (Generic e # es) =
     (if map_of (attributes e) ''data-game'' = Some g
      then Some (Generic (add_click_listener g e) # es)
      else map_option ((#) (Generic e)) (wire_first g es))"
| "wire_first g (e # es) = map_option ((#) e) (wire_first g es)"

definition wire_at :: "nat \<Rightarrow> string \<Rightarrow> element list \<Rightarrow> element list" where
  "wire_at i g es =
     (if i < length es
      then (case es ! i of Generic e \<Rightarrow> es[i := Generic (add_click_listener g e)] | _ \<Rightarrow> es)
      else es)"

text \<open>
  The \<open>forEach\<close> over the keys: a key whose floor is not found is skipped, and a
  \<open>SyntaxError\<close> of \<open>querySelector\<close> ends the loop and is thrown to the caller.
\<close>

fun setup_each :: "env \<Rightarrow> string list \<Rightarrow> app_state \<Rightarrow> app_state completion" where
  "setup_each E [] s = Normal s"
| "setup_each E (gameId # rest) s =
     (if selector_plain gameId
      then (case wire_first gameId (body s) of
              Some b \<Rightarrow> setup_each E rest (s\<lparr>body := b\<rparr>)
            | None \<Rightarrow> setup_each E rest s)
      else (case other_selectors E (data_game_selector gameId) (body s) of
              Found i \<Rightarrow> setup_each E rest (s\<lparr>body := wire_at i gameId (body s)\<rparr>)
            | NotFound \<Rightarrow> setup_each E rest s
            | SyntaxError \<Rightarrow> Throws (ErrorValue (OtherError ''SyntaxError'')) s))"

definition setupFloorListeners :: "env \<Rightarrow> app_state \<Rightarrow> app_state completion" where
  "setupFloorListeners E s = setup_each E (Object_keys (games E)) s"

text \<open>
  The statements shared by the home branch of \<open>loadScreen\<close> and by its recovery callback:
  store the generated markup, make it the content of the body, wire the floors (the
  \<open>loaded\<close> class is added by a timer 100 ms later).
\<close>

definition show_home :: "env \<Rightarrow> app_state \<Rightarrow> app_state completion" where
  "show_home E s =
     setupFloorListeners E
       (s\<lparr>screens_home := Some (generateHomeScreen E),
          body := parse_markup E (generateHomeScreen E)\<rparr>)"

section \<open>Screen transitions (App.loadScreen)\<close>

definition then_do ::
  "app_state completion \<Rightarrow> (app_state \<Rightarrow> app_state completion) \<Rightarrow> app_state completion" where
  "then_do c k = (case c of Normal s \<Rightarrow> k s | Throws e s \<Rightarrow> Throws e s)"

definition soundManager :: "sound_command \<Rightarrow> app_state \<Rightarrow> app_state" where
  "soundManager c s = s\<lparr>sounds := sounds s @ [c]\<rparr>"

text \<open>\<open>document.querySelector('.game-screen')\<close>, and \<open>classList.add('loaded')\<close> on it.\<close>

fun mark_game_screen_loaded :: "element list \<Rightarrow> element list" where
  "mark_game_screen_loaded [] = []"
| "mark_game_screen_loaded (Generic e # es) =
     (if has_class ''game-screen'' e then Generic (classList_add ''loaded'' e) # es
      else Generic e # mark_game_screen_loaded es)"
| "mark_game_screen_loaded (e # es) = e # mark_game_screen_loaded es"

text \<open>
  The inner \<open>try\<close> block: import the module, clear the body, start the game. A value of
  \<open>None\<close> for the script is \<open>undefined\<close>, which \<open>import\<close> turns into the specifier
  \<open>undefined\<close>.
\<close>

definition start_module ::
  "env \<Rightarrow> string option \<Rightarrow> app_state \<Rightarrow> app_state completion" where
  "start_module E script_value s =
     (case import_module E (case script_value of Some p \<Rightarrow> p | None \<Rightarrow> ''undefined'') of
        ImportRejected reason \<Rightarrow> Throws reason s
      | Module startGame \<Rightarrow>
          (let s1 = LoadingScreen_updateProgress 2 2 s;
               s2 = s1\<lparr>body := []\<rparr>;
               s3 = soundManager (SetVolume ''commonSounds'' (2 / 10))
                      (soundManager (Play ''commonSounds'' ''openGame'') s2)
           in then_do (startGame s3)
                (\<lambda>s4. Normal (s4\<lparr>body := mark_game_screen_loaded (body s4)\<rparr>))))"

text \<open>
  The body of \<open>if (games[screenId])\<close> after the music is stopped; \<open>style_value\<close> and
  \<open>script_value\<close> are the destructured fields (\<open>None\<close> for \<open>undefined\<close>). The inner
  \<open>catch\<close> logs what was thrown and builds the \<open>GameError\<close> it throws from
  \<open>error.message\<close>: reading it from \<open>null\<close> or \<open>undefined\<close> raises a \<open>TypeError\<close>,
  which is thrown in place of the \<open>GameError\<close>.
\<close>

definition load_game ::
  "env \<Rightarrow> string option \<Rightarrow> string option \<Rightarrow> app_state \<Rightarrow> app_state completion" where
  "load_game E style_value script_value s =
     then_do
       ((case style_value of Some p \<Rightarrow> ensureCSS E p | None \<Rightarrow> ensureCSS_undefined)
          (LoadingScreen_updateMessage MsgLoadingStyles s))
       (\<lambda>s1.
          (let s2 = LoadingScreen_updateMessage MsgLoadingGame
                      (LoadingScreen_updateProgress 1 2 s1)
           in case start_module E script_value s2 of
                Normal t \<Rightarrow> Normal t
              | Throws error t \<Rightarrow>
                  (let t1 = t\<lparr>console_errors :=
                               console_errors t @ [(''Failed to load game module:'', error)]\<rparr>
                   in case error of
                        ErrorValue e \<Rightarrow>
                          Throws (ErrorValue (GameError ''Failed to load game module''
                                                (Some GAME_INITIALIZATION))) t1
                      | NullOrUndefined \<Rightarrow> Throws (ErrorValue type_error) t1)))"

definition loadScreen_try :: "env \<Rightarrow> string \<Rightarrow> app_state \<Rightarrow> app_state completion" where
  "loadScreen_try E screenId s =
     then_do (ensureCSS E ''style.css'' (s\<lparr>body := body s @ [Placeholder]\<rparr>))
       (\<lambda>s2. then_do (ensureCSS E ''components/loadingScreen/loadingScreen.css'' s2)
          (\<lambda>s3.
             if screenId = ''home''
             then then_do (show_home E s3)
                    (\<lambda>s4. Normal (soundManager (Play ''commonSounds'' ''homeBackgroundMusic'') s4))
             else
               (let s4 = LoadingScreen_show (MsgLoadingOf screenId) s3 in
                case games_get (games E) screenId of
                  Own entry \<Rightarrow>
                    load_game E (Some (style entry)) (Some (script entry))
                      (soundManager (Stop ''commonSounds'') s4)
                | Inherited \<Rightarrow>
                    load_game E None None (soundManager (Stop ''commonSounds'') s4)
                | Missing \<Rightarrow>
                    Throws (ErrorValue (GameError ''Game not found'' (Some RESOURCE))) s4)))"

definition loadScreen_finally :: "app_state \<Rightarrow> app_state" where
  "loadScreen_finally s =
     (let s1 = LoadingScreen_hide s in s1\<lparr>body := remove1 Placeholder (body s1)\<rparr>)"

text \<open>
  The \<open>catch\<close> block logs what was thrown and calls \<open>handleError\<close> with the recovery
  callback; \<open>handleError\<close> reads \<open>error.message\<close> first, so \<open>null\<close> or \<open>undefined\<close>
  makes it raise a \<open>TypeError\<close>. The \<open>finally\<close> block runs in every case.
\<close>

definition loadScreen :: "env \<Rightarrow> string \<Rightarrow> app_state \<Rightarrow> app_state completion" where
  "loadScreen E screenId s =
     (case (case loadScreen_try E screenId s of
              Normal t \<Rightarrow> Normal t
            | Throws error t \<Rightarrow>
                (let t1 = t\<lparr>console_errors :=
                             console_errors t @ [(''Error in loadScreen:'', error)]\<rparr>
                 in case error of
                      ErrorValue e \<Rightarrow> handleError e ''app.loadScreen'' (Some (show_home E)) t1
                    | NullOrUndefined \<Rightarrow> Throws (ErrorValue type_error) t1))
      of Normal t \<Rightarrow> Normal (loadScreen_finally t)
       | Throws e t \<Rightarrow> Throws e (loadScreen_finally t))"

section \<open>Unloading a stylesheet (unloadCSS)\<close>

text \<open>
  The loop over the snapshot of \<open>document.querySelectorAll('link[rel="stylesheet"]')\<close>:
  each link whose resolved \<open>href\<close> is non-empty and includes the name is removed from
  the head and the name is untracked.
\<close>

definition href_includes :: "env \<Rightarrow> string \<Rightarrow> link \<Rightarrow> bool" where
  "href_includes E name l =
     (resolve_url E (link_href l) \<noteq> [] \<and> str_includes (resolve_url E (link_href l)) name)"

fun unload_each :: "env \<Rightarrow> string \<Rightarrow> link list \<Rightarrow> app_state \<times> bool \<Rightarrow> app_state \<times> bool" where
  "unload_each E name [] acc = acc"
| "unload_each E name (l # ls) (s, found) =
     (if href_includes E name l
      then unload_each E name ls
             (untrackCSS name (s\<lparr>head_links := remove1 l (head_links s)\<rparr>), True)
      else unload_each E name ls (s, found))"

definition stylesheet_links :: "app_state \<Rightarrow> link list" where
  "stylesheet_links s = filter (\<lambda>l. link_rel l = ''stylesheet'') (head_links s)"

text \<open>
  The documented copy of \<open>utils/helpers.js\<close>: one leading slash is stripped from the
  name, and a name that matches no link is a \<open>console.warn\<close>.
\<close>

definition unloadCSS :: "env \<Rightarrow> string \<Rightarrow> app_state \<Rightarrow> app_state completion" where
  "unloadCSS E filename s =
     (if filename = []
      then handleError (GameError ''No filename provided for CSS unloading'' (Some RESOURCE))
             ''helpers.unloadCSS'' None s
      else
        (let normalizedFilename = strip_leading_slash filename in
         case unload_each E normalizedFilename (stylesheet_links s) (s, False) of
           (s1, found) \<Rightarrow>
             if found then Normal s1
             else Normal (s1\<lparr>warnings :=
                               warnings s1 @ [''CSS file not found: '' @ normalizedFilename]\<rparr>)))"

text \<open>
  The copy at \<open>src/utils/helpers.js\<close>: the name is used as given, and a name that
  matches no link raises a \<open>GameError\<close> that the \<open>catch\<close> of the function hands to
  \<open>handleError\<close>.
\<close>

definition unloadCSS_helpers :: "env \<Rightarrow> string \<Rightarrow> app_state \<Rightarrow> app_state completion" where
  "unloadCSS_helpers E filename s =
     (if filename = []
      then handleError (GameError ''No filename provided for CSS unloading'' (Some RESOURCE))
             ''helpers.unloadCSS'' None s
      else
        (case unload_each E filename (stylesheet_links s) (s, False) of
           (s1, found) \<Rightarrow>
             if found then Normal s1
             else handleError (GameError ''CSS file not found'' (Some RESOURCE))
                    ''helpers.unloadCSS'' None s1))"

section \<open>Shuffling (shuffleArray)\<close>

text \<open>
  Arrays are objects: the store maps the address of an array to its contents, and the
  function receives and returns an address. The \<open>k\<close>-th call of \<open>Math.random()\<close>
  returns \<open>rnd k\<close>, a number that is at least 0 and less than 1. The destructuring
  assignment reads both elements before it writes them.
\<close>

definition swap_elements :: "nat \<Rightarrow> nat \<Rightarrow> 'a list \<Rightarrow> 'a list" where
  "swap_elements i j xs = (xs[i := xs ! j])[j := xs ! i]"

text \<open>
  \<open>shuffle_loop rnd k i xs\<close> runs the iterations \<open>i, i - 1, \<dots>, 1\<close> of the loop, the
  first of them drawing the \<open>k\<close>-th random number. The loop starts at
  \<open>array.length - 1\<close>, which is \<open>-1\<close> for the empty array: no iteration then, as with
  the truncated subtraction on \<^typ>\<open>nat\<close>.
\<close>

fun shuffle_loop :: "(nat \<Rightarrow> real) \<Rightarrow> nat \<Rightarrow> nat \<Rightarrow> 'a list \<Rightarrow> 'a list" where
  "shuffle_loop rnd k 0 xs = xs"
| "shuffle_loop rnd k (Suc i) xs =
     (let j = nat \<lfloor>rnd k * real (Suc i + 1)\<rfloor>
      in shuffle_loop rnd (Suc k) i (swap_elements (Suc i) j xs))"

definition shuffleArray ::
  "(nat \<Rightarrow> real) \<Rightarrow> nat \<Rightarrow> (nat \<Rightarrow> 'a list) \<Rightarrow> nat \<times> (nat \<Rightarrow> 'a list)" where
  "shuffleArray rnd array store =
     (array, store(array := shuffle_loop rnd 0 (length (store array) - 1) (store array)))"

definition random_source :: "(nat \<Rightarrow> real) \<Rightarrow> bool" where
  "random_source rnd = (\<forall>k. 0 \<le> rnd k \<and> rnd k < 1)"

section \<open>The popup component (components/popUp/popUp.js)\<close>

text \<open>
  The fields the constructor initialises. \<open>popup\<close> is the message of the open popup
  element, if one is open.
\<close>

record PopUp_object =
  popup :: "string option"
  popupMessage :: "string option"
  popupCloseButton :: "string option"
  cssLoaded :: bool
  cssLink :: "string option"

definition constructed_PopUp :: PopUp_object where
  "constructed_PopUp =
     \<lparr>popup = None, popupMessage = None, popupCloseButton = None, cssLoaded = False,
      cssLink = None\<rparr>"

text \<open>
  The module: its variable \<open>instance\<close> (\<open>null\<close> when the module is loaded), the objects
  allocated by \<open>new\<close> (the address of an object is its index; \<open>None\<close> is an object whose
  fields were never set), and the number of times the constructor asked the sound
  manager for the popup sounds.
\<close>

record popUp_module =
  module_instance :: "nat option"
  objects :: "PopUp_object option list"
  popUpSounds_requests :: nat

definition popUp_module_loaded :: popUp_module where
  "popUp_module_loaded = \<lparr>module_instance = None, objects = [], popUpSounds_requests = 0\<rparr>"

text \<open>
  \<open>new PopUp()\<close>: a new object is allocated as \<open>this\<close> and the constructor runs; a
  constructor that returns an object makes that object the value of the \<open>new\<close>
  expression.
\<close>

definition new_PopUp :: "popUp_module \<Rightarrow> nat \<times> popUp_module" where
  "new_PopUp m =
     (let this = length (objects m);
          m1 = m\<lparr>objects := objects m @ [None]\<rparr>
      in case module_instance m1 of
           Some first \<Rightarrow> (first, m1)
         | None \<Rightarrow>
             (this, m1\<lparr>module_instance := Some this,
                       objects := (objects m1)[this := Some constructed_PopUp],
                       popUpSounds_requests := Suc (popUpSounds_requests m1)\<rparr>))"

text \<open>\<open>n\<close> constructor invocations in sequence, with the objects they return.\<close>

fun construct_all :: "nat \<Rightarrow> popUp_module \<Rightarrow> nat list \<times> popUp_module" where
  "construct_all 0 m = ([], m)"
| "construct_all (Suc n) m =
     (case new_PopUp m of
        (a, m1) \<Rightarrow> (case construct_all n m1 of (as, m2) \<Rightarrow> (a # as, m2)))"

section \<open>Events of one \<open>ensureCSS\<close> call\<close>

text \<open>
  The call attaches a link when the normalized path is not tracked and no link of the
  head includes it; the \<open>load\<close> or the \<open>error\<close> event of that link then fires.
\<close>

definition link_attached :: "env \<Rightarrow> string \<Rightarrow> app_state \<Rightarrow> bool" where
  "link_attached E cssPath s =
     (\<not> set_has (loadedCSS s) (normalizePath cssPath)
      \<and> \<not> existingLink E (normalizePath cssPath) s)"

definition load_fires :: "env \<Rightarrow> string \<Rightarrow> app_state \<Rightarrow> bool" where
  "load_fires E cssPath s =
     (link_attached E cssPath s \<and> css_load E (normalizePath cssPath) = onload)"

definition error_fires :: "env \<Rightarrow> string \<Rightarrow> app_state \<Rightarrow> bool" where
  "error_fires E cssPath s =
     (link_attached E cssPath s \<and> css_load E (normalizePath cssPath) = onerror)"

definition links_for :: "string \<Rightarrow> app_state \<Rightarrow> link list" where
  "links_for cssPath s =
     filter (\<lambda>l. link_href l = normalizePath cssPath \<and> link_rel l = ''stylesheet'') (head_links s)"

text \<open>
  A link whose \<open>href\<close> is empty is not fetched and fires neither event: the call that
  attaches it never settles. \<open>ensureCSS\<close> above describes the calls that settle.
\<close>

definition never_settles :: "env \<Rightarrow> string \<Rightarrow> app_state \<Rightarrow> bool" where
  "never_settles E cssPath s = (link_attached E cssPath s \<and> normalizePath cssPath = [])"

section \<open>The normalization in the words of the specification\<close>

text \<open>
  The specification normalizes a path by trimming it and stripping its leading and
  trailing slashes: \<open>spec_normalize\<close> removes the white space at both ends and then every
  slash at both ends. \<open>slashed_once\<close> holds for a path that, once trimmed, has at most
  one slash before and at most one slash after what \<open>spec_normalize\<close> keeps.
\<close>

definition spec_trim :: "string \<Rightarrow> string" where
  "spec_trim p = rev (dropWhile is_whitespace (rev (dropWhile is_whitespace p)))"

definition spec_normalize :: "string \<Rightarrow> string" where
  "spec_normalize p =
     rev (dropWhile (\<lambda>c. c = CHR ''/'') (rev (dropWhile (\<lambda>c. c = CHR ''/'') (spec_trim p))))"

definition slashed_once :: "string \<Rightarrow> bool" where
  "slashed_once p =
     (spec_trim p \<in> {spec_normalize p, ''/'' @ spec_normalize p, spec_normalize p @ ''/'',
                     ''/'' @ spec_normalize p @ ''/''})"

section \<open>What a transition leaves behind\<close>

fun state_of :: "'s completion \<Rightarrow> 's" where
  "state_of (Normal s) = s"
| "state_of (Throws e s) = s"

text \<open>
  The elements of the home screen for identifiers that the markup parser reads as they
  are: the container, the logo and the building, then one floor per key in reverse
  order. A wired floor has its one click listener.
\<close>

definition home_frame :: "dom_element list" where
  "home_frame =
     [\<lparr>tag_name = ''div'', attributes = [(''class'', ''container'')], click_listeners = []\<rparr>,
      \<lparr>tag_name = ''img'', attributes = [(''src'', ''logo.png''), (''alt'', ''Logo'')],
       click_listeners = []\<rparr>,
      \<lparr>tag_name = ''div'', attributes = [(''class'', ''building'')], click_listeners = []\<rparr>]"

definition floor_element :: "string \<Rightarrow> dom_element" where
  "floor_element gameId =
     \<lparr>tag_name = ''div'', attributes = [(''class'', ''floor''), (''data-game'', gameId)],
      click_listeners = []\<rparr>"

definition wired_floor :: "string \<Rightarrow> dom_element" where
  "wired_floor gameId = add_click_listener gameId (floor_element gameId)"

definition wired_home :: "env \<Rightarrow> element list" where
  "wired_home E = map Generic (home_frame @ map wired_floor (rev (Object_keys (games E))))"

text \<open>The floor elements of a document, and the \<open>data-game\<close> attribute of an element.\<close>

fun floor_elements :: "element list \<Rightarrow> dom_element list" where
  "floor_elements [] = []"
| "floor_elements (Generic e # es) =
     (if has_class ''floor'' e then e # floor_elements es else floor_elements es)"
| "floor_elements (e # es) = floor_elements es"

definition data_game :: "dom_element \<Rightarrow> string option" where
  "data_game e = map_of (attributes e) ''data-game''"

text \<open>
  The characters that the markup parser does not read as themselves inside the quoted
  attribute and the text of a floor, and the identifiers free of them and of the
  characters that end or break the string of the selector.
\<close>

definition markup_special :: "char list" where
  "markup_special = [CHR 0x22, CHR ''&'', CHR ''<'', CHR 0x00, CHR 0x0D]"

definition markup_plain :: "string \<Rightarrow> bool" where
  "markup_plain k = list_all (\<lambda>c. c \<notin> set markup_special) k"

definition plain_keys :: "env \<Rightarrow> bool" where
  "plain_keys E = list_all (\<lambda>k. markup_plain k \<and> selector_plain k) (Object_keys (games E))"

text \<open>The reports the transition can write, and the kind of a report.\<close>

definition css_failure_report :: "string \<Rightarrow> report" where
  "css_failure_report cssPath =
     \<lparr>report_context = ''App.ensureCSS'',
      report_error = GameError (''Failed to load CSS: '' @ normalizePath cssPath) (Some RESOURCE)\<rparr>"

definition not_found_report :: report where
  "not_found_report =
     \<lparr>report_context = ''app.loadScreen'',
      report_error = GameError ''Game not found'' (Some RESOURCE)\<rparr>"

definition module_failure_report :: report where
  "module_failure_report =
     \<lparr>report_context = ''app.loadScreen'',
      report_error = GameError ''Failed to load game module'' (Some GAME_INITIALIZATION)\<rparr>"

fun error_kind :: "js_error \<Rightarrow> ErrorTypes option" where
  "error_kind (GameError m k) = k"
| "error_kind (OtherError m) = None"

definition reports_of_kind :: "ErrorTypes \<Rightarrow> app_state \<Rightarrow> report list" where
  "reports_of_kind k s = filter (\<lambda>r. error_kind (report_error r) = Some k) (reports s)"

section \<open>Sample environments and states\<close>

definition initial_state :: app_state where
  "initial_state =
     \<lparr>loadedCSS = [], head_links = [], body = [],
      loadingScreen = \<lparr>element_present = False, isHiding = False, message = MsgDefault,
                       progress = None\<rparr>,
      screens_home = None, reports = [], console_errors = [], warnings = [], sounds = [],
      location_href = None\<rparr>"

text \<open>The state after \<open>ensureCSS('style.css')\<close> has loaded the stylesheet.\<close>

definition style_loaded :: app_state where
  "style_loaded =
     initial_state\<lparr>head_links := [\<lparr>link_href = ''style.css'', link_rel = ''stylesheet''\<rparr>],
                   loadedCSS := [''style.css'']\<rparr>"

definition sample_games :: "(string \<times> game_entry) list" where
  "sample_games =
     [(''game1'', \<lparr>script = ''./games/game1/game1.js'', style = ''games/game1/game1.css''\<rparr>),
      (''game2'', \<lparr>script = ''./games/game2/game2.js'', style = ''games/game2/game2.css''\<rparr>),
      (''game3'', \<lparr>script = ''./games/game3/game3.js'', style = ''games/game3/game3.css''\<rparr>)]"

text \<open>
  A browser in which every stylesheet loads and every import is rejected with an error,
  one in which the stylesheets fail as well, and one in which the import is rejected
  with \<open>undefined\<close>. In all of them a selector that is not an attribute selector with a
  plain string is a \<open>SyntaxError\<close>.
\<close>

definition sample_env :: env where
  "sample_env =
     \<lparr>resolve_url = (\<lambda>p. ''http://localhost/'' @ p),
      css_load = (\<lambda>p. onload),
      import_module = (\<lambda>p. ImportRejected (ErrorValue (OtherError ''Failed to fetch module''))),
      games = sample_games,
      other_markup = (\<lambda>m. []),
      other_selectors = (\<lambda>sel es. SyntaxError)\<rparr>"

definition offline_env :: env where
  "offline_env = sample_env\<lparr>css_load := (\<lambda>p. onerror)\<rparr>"

definition rejecting_env :: env where
  "rejecting_env = sample_env\<lparr>import_module := (\<lambda>p. ImportRejected NullOrUndefined)\<rparr>"

text \<open>
  Registries generated from game directories with other names: one whose name holds a
  double quote, and one whose name is a tag.
\<close>

definition quoted_env :: env where
  \<open>quoted_env =
     sample_env\<lparr>games := [(''g"1'', \<lparr>script = ''./games/g"1/g"1.js'',
                                       style = ''games/g"1/g"1.css''\<rparr>)]\<rparr>\<close>

definition tag_env :: env where
  "tag_env =
     sample_env\<lparr>games :=
       [(''<div class=floor>'', \<lparr>script = ''./games/<div class=floor>/<div class=floor>.js'',
                                style = ''games/<div class=floor>/<div class=floor>.css''\<rparr>),
        (''game1'', \<lparr>script = ''./games/game1/game1.js'', style = ''games/game1/game1.css''\<rparr>)]\<rparr>"

section \<open>Evaluation rules\<close>

lemmas string_eval =
  normalizePath_def trim_def is_whitespace_def whitespace_chars_def
  strip_leading_slash_def strip_trailing_slash_def

lemmas tokenizer_eval =
  data_step_def is_letter_def upper_letters_def lower_letters_def to_lower_def is_html_space_def
  emit_tag_def add_attribute_def start_attribute_def

lemmas loadScreen_eval =
  loadScreen_def loadScreen_try_def then_do_def ensureCSS_def ensureCSS_undefined_def
  existingLink_def set_has_def set_add_def handleError_def showUserFriendlyError_def
  LoadingScreen_show_def LoadingScreen_hide_def LoadingScreen_updateMessage_def
  LoadingScreen_updateProgress_def games_get_def object_prototype_names_def load_game_def
  start_module_def soundManager_def Object_keys_def loadScreen_finally_def type_error_def
  initial_state_def sample_games_def string_eval Let_def

lemma sample_env_fields:
  "css_load sample_env = (\<lambda>p. onload)"
  "resolve_url sample_env = (\<lambda>p. ''http://localhost/'' @ p)"
  "import_module sample_env
     = (\<lambda>p. ImportRejected (ErrorValue (OtherError ''Failed to fetch module'')))"
  "games sample_env = sample_games"
  by (simp_all add: sample_env_def)

lemma offline_env_fields:
  "css_load offline_env = (\<lambda>p. onerror)"
  "resolve_url offline_env = (\<lambda>p. ''http://localhost/'' @ p)"
  "import_module offline_env
     = (\<lambda>p. ImportRejected (ErrorValue (OtherError ''Failed to fetch module'')))"
  "games offline_env = sample_games"
  by (simp_all add: offline_env_def sample_env_def)

lemma rejecting_env_fields:
  "css_load rejecting_env = (\<lambda>p. onload)"
  "resolve_url rejecting_env = (\<lambda>p. ''http://localhost/'' @ p)"
  "import_module rejecting_env = (\<lambda>p. ImportRejected NullOrUndefined)"
  "games rejecting_env = sample_games"
  by (simp_all add: rejecting_env_def sample_env_def)

lemma normalizePath_samples:
  "normalizePath ''style.css'' = ''style.css''"
  "normalizePath ''/style.css/'' = ''style.css''"
  "normalizePath ''components/loadingScreen/loadingScreen.css''
     = ''components/loadingScreen/loadingScreen.css''"
  by (simp_all add: string_eval)

section \<open>Reporting an error\<close>

lemma handleError_None:
  "handleError e c None s =
     Normal (showUserFriendlyError (user_message_for e)
               (s\<lparr>reports := reports s @ [\<lparr>report_context = c, report_error = e\<rparr>]\<rparr>))"
  by (simp add: handleError_def)

lemma set_error_container_Some:
  "set_error_container m es = Some b \<Longrightarrow> ErrorContainer m \<in> set b"
  by (induction m es arbitrary: b rule: set_error_container.induct) auto

lemma showUserFriendlyError_frame:
  "loadedCSS (showUserFriendlyError m s) = loadedCSS s"
  "head_links (showUserFriendlyError m s) = head_links s"
  "loadingScreen (showUserFriendlyError m s) = loadingScreen s"
  "reports (showUserFriendlyError m s) = reports s"
  "warnings (showUserFriendlyError m s) = warnings s"
  "sounds (showUserFriendlyError m s) = sounds s"
  "console_errors (showUserFriendlyError m s) = console_errors s"
  "location_href (showUserFriendlyError m s) = location_href s"
  "screens_home (showUserFriendlyError m s) = screens_home s"
  by (simp_all add: showUserFriendlyError_def split: option.splits)

lemma showUserFriendlyError_body:
  "ErrorContainer m \<in> set (body (showUserFriendlyError m s))"
  by (auto simp: showUserFriendlyError_def set_error_container_Some split: option.splits)

text \<open>
  Claim C8. For every error and every recovery callback \<open>f\<close> given to \<open>handleError\<close>:
  the state \<open>f\<close> is called on is the one \<open>handleError\<close> leaves without a callback, in
  which the error is logged and the user-facing message is displayed; when \<open>f\<close> returns,
  \<open>handleError\<close> returns what \<open>f\<close> left; when \<open>f\<close> throws, \<open>handleError\<close> still
  returns, after logging the failure and assigning \<open>/\<close> to \<open>window.location.href\<close>.
\<close>

theorem handleError_fallback_after_report:
  "\<exists>s2. handleError e c None s = Normal s2
      \<and> reports s2 = reports s @ [\<lparr>report_context = c, report_error = e\<rparr>]
      \<and> ErrorContainer (user_message_for e) \<in> set (body s2)
      \<and> (case f s2 of
            Normal s3 \<Rightarrow> handleError e c (Some f) s = Normal s3
          | Throws fallbackError s3 \<Rightarrow>
              handleError e c (Some f) s
                = Normal (s3\<lparr>console_errors :=
                              console_errors s3 @ [(''Error in fallback handler:'', fallbackError)],
                            location_href := Some ''/''\<rparr>))"
  by (simp add: handleError_def Let_def showUserFriendlyError_frame showUserFriendlyError_body
      split: completion.splits)

theorem handleError_fallback_after_report_witness:
  "handleError (GameError ''Game not found'' (Some RESOURCE)) ''app.loadScreen''
       (Some (\<lambda>u. Throws (ErrorValue (OtherError ''fallback failed'')) u)) initial_state
     = Normal (initial_state
         \<lparr>body := [ErrorContainer MsgMissingResources],
          reports := [\<lparr>report_context = ''app.loadScreen'',
                       report_error = GameError ''Game not found'' (Some RESOURCE)\<rparr>],
          console_errors :=
            [(''Error in fallback handler:'', ErrorValue (OtherError ''fallback failed''))],
          location_href := Some ''/''\<rparr>)"
  using handleError_fallback_after_report
    [of "GameError ''Game not found'' (Some RESOURCE)" "''app.loadScreen''" initial_state
        "\<lambda>u. Throws (ErrorValue (OtherError ''fallback failed'')) u"]
  by (simp add: handleError_None showUserFriendlyError_def initial_state_def)

section \<open>Loading a stylesheet\<close>

lemma ensureCSS_tracked:
  "set_has (loadedCSS s) (normalizePath p) \<Longrightarrow> ensureCSS E p s = Normal s"
  by (simp add: ensureCSS_def)

lemma ensureCSS_load:
  assumes "load_fires E p s"
  shows "ensureCSS E p s =
           Normal (s\<lparr>head_links := head_links s
                        @ [\<lparr>link_href = normalizePath p, link_rel = ''stylesheet''\<rparr>],
                     loadedCSS := loadedCSS s @ [normalizePath p]\<rparr>)"
  using assms
  by (simp add: ensureCSS_def load_fires_def link_attached_def set_add_def set_has_def Let_def)

lemma ensureCSS_error:
  assumes "error_fires E p s"
  shows "ensureCSS E p s =
           Normal (showUserFriendlyError MsgMissingResources
             (s\<lparr>head_links := head_links s
                   @ [\<lparr>link_href = normalizePath p, link_rel = ''stylesheet''\<rparr>],
                reports := reports s @ [css_failure_report p]\<rparr>))"
  using assms
  by (simp add: ensureCSS_def error_fires_def link_attached_def handleError_None Let_def
      css_failure_report_def)

lemma ensureCSS_effect:
  "\<exists>s1. ensureCSS E p s = Normal s1
      \<and> loadingScreen s1 = loadingScreen s \<and> location_href s1 = location_href s
      \<and> sounds s1 = sounds s
      \<and> (reports s1 = reports s \<or> reports s1 = reports s @ [css_failure_report p])
      \<and> (css_load E (normalizePath p) = onload \<longrightarrow> reports s1 = reports s)"
  by (cases "css_load E (normalizePath p)")
     (simp_all add: ensureCSS_def Let_def handleError_None showUserFriendlyError_frame
        css_failure_report_def)

lemma load_fires_sample: "load_fires sample_env ''/style.css/'' initial_state"
  by (simp add: load_fires_def link_attached_def normalizePath_samples set_has_def
      existingLink_def initial_state_def sample_env_def)

text \<open>
  Claim C3. When the first of two successive calls \<open>ensureCSS(p)\<close> attaches its link and
  the load event of that link fires, both calls return, the two calls together add
  exactly one stylesheet link for \<open>p\<close> to the head, the tracked set then holds the
  normalized path exactly once, and the second call changes nothing.
\<close>

theorem ensureCSS_twice_attaches_once:
  assumes "load_fires E p s"
  shows "\<exists>s1. ensureCSS E p s = Normal s1 \<and> ensureCSS E p s1 = Normal s1
          \<and> head_links s1
              = head_links s @ [\<lparr>link_href = normalizePath p, link_rel = ''stylesheet''\<rparr>]
          \<and> links_for p s1
              = links_for p s @ [\<lparr>link_href = normalizePath p, link_rel = ''stylesheet''\<rparr>]
          \<and> count_list (loadedCSS s1) (normalizePath p) = 1"
proof -
  let ?s1 = "s\<lparr>head_links := head_links s
                  @ [\<lparr>link_href = normalizePath p, link_rel = ''stylesheet''\<rparr>],
               loadedCSS := loadedCSS s @ [normalizePath p]\<rparr>"
  have first: "ensureCSS E p s = Normal ?s1" by (rule ensureCSS_load [OF assms])
  have "set_has (loadedCSS ?s1) (normalizePath p)" by (simp add: set_has_def)
  then have second: "ensureCSS E p ?s1 = Normal ?s1" by (rule ensureCSS_tracked)
  have "normalizePath p \<notin> set (loadedCSS s)"
    using assms by (simp add: load_fires_def link_attached_def set_has_def)
  then have "count_list (loadedCSS ?s1) (normalizePath p) = 1"
    by (simp add: count_list_0_iff)
  moreover have "links_for p ?s1
      = links_for p s @ [\<lparr>link_href = normalizePath p, link_rel = ''stylesheet''\<rparr>]"
    by (simp add: links_for_def)
  ultimately show ?thesis using first second by simp
qed

theorem ensureCSS_twice_attaches_once_witness:
  "load_fires sample_env ''/style.css/'' initial_state
   \<and> head_links (state_of (ensureCSS sample_env ''/style.css/'' initial_state))
       = [\<lparr>link_href = ''style.css'', link_rel = ''stylesheet''\<rparr>]
   \<and> count_list (loadedCSS (state_of (ensureCSS sample_env ''/style.css/'' initial_state)))
        ''style.css'' = 1
   \<and> ensureCSS sample_env ''/style.css/''
        (state_of (ensureCSS sample_env ''/style.css/'' initial_state))
       = ensureCSS sample_env ''/style.css/'' initial_state"
proof -
  from ensureCSS_twice_attaches_once [OF load_fires_sample] obtain s1 where
      "ensureCSS sample_env ''/style.css/'' initial_state = Normal s1"
      "ensureCSS sample_env ''/style.css/'' s1 = Normal s1"
      "head_links s1 = head_links initial_state
          @ [\<lparr>link_href = normalizePath ''/style.css/'', link_rel = ''stylesheet''\<rparr>]"
      "count_list (loadedCSS s1) (normalizePath ''/style.css/'') = 1"
    by blast
  then show ?thesis
    using load_fires_sample by (simp add: normalizePath_samples initial_state_def)
qed

text \<open>
  Claim C5. When \<open>ensureCSS(p)\<close> attaches its link and the error event of that link
  fires, the call returns after handing a \<open>RESOURCE\<close> error for the normalized path to
  \<open>handleError\<close>, which logs it and shows the message, and the tracked set is what it
  was before the call.
\<close>

theorem ensureCSS_error_leaves_tracked_set:
  assumes "error_fires E p s"
  shows "\<exists>s1. ensureCSS E p s = Normal s1 \<and> loadedCSS s1 = loadedCSS s
          \<and> reports s1 = reports s @ [css_failure_report p]
          \<and> error_kind (report_error (css_failure_report p)) = Some RESOURCE
          \<and> ErrorContainer MsgMissingResources \<in> set (body s1)"
  by (simp add: ensureCSS_error [OF assms] showUserFriendlyError_frame
      showUserFriendlyError_body css_failure_report_def)

theorem ensureCSS_error_leaves_tracked_set_witness:
  "error_fires offline_env ''/style.css/'' initial_state
   \<and> loadedCSS (state_of (ensureCSS offline_env ''/style.css/'' initial_state)) = []
   \<and> reports (state_of (ensureCSS offline_env ''/style.css/'' initial_state))
       = [\<lparr>report_context = ''App.ensureCSS'',
           report_error = GameError ''Failed to load CSS: style.css'' (Some RESOURCE)\<rparr>]"
proof -
  have h: "error_fires offline_env ''/style.css/'' initial_state"
    by (simp add: error_fires_def link_attached_def normalizePath_samples set_has_def
        existingLink_def initial_state_def sample_env_def offline_env_def)
  from ensureCSS_error_leaves_tracked_set [OF h] obtain s1 where
      "ensureCSS offline_env ''/style.css/'' initial_state = Normal s1"
      "loadedCSS s1 = loadedCSS initial_state"
      "reports s1 = reports initial_state @ [css_failure_report ''/style.css/'']"
    by blast
  then show ?thesis
    using h by (simp add: css_failure_report_def normalizePath_samples initial_state_def)
qed

section \<open>Paths with the same identifier\<close>

lemma strip_leading_plain:
  "c = [] \<or> hd c \<noteq> CHR ''/'' \<Longrightarrow> strip_leading_slash c = c"
  by (cases c) (simp_all add: strip_leading_slash_def)

lemma strip_trailing_plain:
  "c = [] \<or> last c \<noteq> CHR ''/'' \<Longrightarrow> strip_trailing_slash c = c"
  by (cases "c = []") (simp_all add: strip_trailing_slash_def)

lemma dropWhile_both_ends:
  assumes "rev (dropWhile P (rev (dropWhile P xs))) \<noteq> []"
  shows "\<not> P (hd (rev (dropWhile P (rev (dropWhile P xs)))))"
    and "\<not> P (last (rev (dropWhile P (rev (dropWhile P xs)))))"
proof -
  define d where "d = dropWhile P xs"
  define c where "c = rev (dropWhile P (rev d))"
  have nonempty: "dropWhile P (rev d) \<noteq> []" using assms by (simp add: d_def)
  have "rev (takeWhile P (rev d) @ dropWhile P (rev d)) = c @ rev (takeWhile P (rev d))"
    by (simp only: rev_append c_def)
  then have d: "d = c @ rev (takeWhile P (rev d))"
    by (simp only: takeWhile_dropWhile_id rev_rev_ident)
  have cne: "c \<noteq> []" using nonempty by (simp add: c_def)
  then have "d \<noteq> []" using d by (cases d) simp_all
  then have "\<not> P (hd d)" unfolding d_def by (rule hd_dropWhile)
  moreover have "hd d = hd c" using cne by (subst d) simp
  ultimately show "\<not> P (hd (rev (dropWhile P (rev (dropWhile P xs)))))"
    by (simp add: c_def d_def)
  have "\<not> P (hd (dropWhile P (rev d)))" using nonempty by (rule hd_dropWhile)
  moreover have "last c = hd (dropWhile P (rev d))" using nonempty by (simp add: c_def last_rev)
  ultimately show "\<not> P (last (rev (dropWhile P (rev (dropWhile P xs)))))"
    by (simp add: c_def d_def)
qed

lemma spec_normalize_ends:
  "spec_normalize p = [] \<or> hd (spec_normalize p) \<noteq> CHR ''/''"
  "spec_normalize p = [] \<or> last (spec_normalize p) \<noteq> CHR ''/''"
  using dropWhile_both_ends [of "\<lambda>c. c = CHR ''/''" "spec_trim p"]
  unfolding spec_normalize_def by blast+


lemma normalizePath_spec:
  assumes "slashed_once p"
  shows "normalizePath p = spec_normalize p"
proof -
  let ?c = "spec_normalize p"
  have t: "trim p = spec_trim p" by (simp add: trim_def spec_trim_def)
  have lead: "strip_leading_slash ?c = ?c"
    using spec_normalize_ends(1) by (rule strip_leading_plain)
  have trail: "strip_trailing_slash ?c = ?c"
    using spec_normalize_ends(2) by (rule strip_trailing_plain)
  have lead2: "strip_leading_slash (''/'' @ xs) = xs" for xs
    by (simp add: strip_leading_slash_def)
  have trail2: "strip_trailing_slash (xs @ ''/'') = xs" for xs
    by (simp add: strip_trailing_slash_def)
  have lead3: "strip_trailing_slash (strip_leading_slash (?c @ ''/'')) = ?c"
  proof (cases "?c = []")
    case True
    then show ?thesis by (simp add: strip_leading_slash_def strip_trailing_slash_def)
  next
    case False
    then have "hd (?c @ ''/'') \<noteq> CHR ''/''" using spec_normalize_ends(1) [of p] by simp
    then have "strip_leading_slash (?c @ ''/'') = ?c @ ''/''"
      by (intro strip_leading_plain disjI2)
    then show ?thesis by (simp only: trail2)
  qed
  from assms consider "spec_trim p = ?c" | "spec_trim p = ''/'' @ ?c"
    | "spec_trim p = ?c @ ''/''" | "spec_trim p = ''/'' @ ?c @ ''/''"
    unfolding slashed_once_def by blast
  then show ?thesis
  proof cases
    case 1
    then show ?thesis by (simp only: normalizePath_def t lead trail)
  next
    case 2
    then show ?thesis by (simp only: normalizePath_def t lead2 trail)
  next
    case 3
    then show ?thesis by (simp only: normalizePath_def t lead3)
  next
    case 4
    then show ?thesis by (simp only: normalizePath_def t lead2 trail2)
  qed
qed


lemma ensureCSS_duplicate:
  assumes "\<not> set_has (loadedCSS s) (normalizePath p)" and "existingLink E (normalizePath p) s"
  shows "ensureCSS E p s
    = Normal (s\<lparr>warnings := warnings s @ [''Duplicate CSS detected: '' @ normalizePath p]\<rparr>)"
  using assms by (simp add: ensureCSS_def Let_def)

lemma ensureCSS_again:
  assumes "normalizePath p = normalizePath q" and "\<not> error_fires E p s"
  shows "\<exists>s1 s2. ensureCSS E p s = Normal s1 \<and> ensureCSS E q s1 = Normal s2
           \<and> head_links s2 = head_links s1 \<and> loadedCSS s2 = loadedCSS s1
           \<and> reports s2 = reports s1 \<and> body s2 = body s1
           \<and> (load_fires E p s \<or> set_has (loadedCSS s) (normalizePath p)
                \<longrightarrow> set_has (loadedCSS s1) (normalizePath q) \<and> s2 = s1)"
proof -
  consider (tracked) "set_has (loadedCSS s) (normalizePath p)"
    | (loads) "load_fires E p s"
    | (duplicate) "\<not> set_has (loadedCSS s) (normalizePath p)"
        "existingLink E (normalizePath p) s" "\<not> load_fires E p s"
    using assms(2) by (cases "css_load E (normalizePath p)")
      (auto simp: error_fires_def load_fires_def link_attached_def)
  then show ?thesis
  proof cases
    case tracked
    then have "ensureCSS E p s = Normal s" "ensureCSS E q s = Normal s"
      using assms(1) by (simp_all add: ensureCSS_tracked)
    with tracked assms(1) show ?thesis by auto
  next
    case loads
    let ?s1 = "s\<lparr>head_links := head_links s
                  @ [\<lparr>link_href = normalizePath p, link_rel = ''stylesheet''\<rparr>],
               loadedCSS := loadedCSS s @ [normalizePath p]\<rparr>"
    have first: "ensureCSS E p s = Normal ?s1" by (rule ensureCSS_load [OF loads])
    have t: "set_has (loadedCSS ?s1) (normalizePath q)"
      using assms(1) by (simp add: set_has_def)
    then have "ensureCSS E q ?s1 = Normal ?s1" by (rule ensureCSS_tracked)
    with first t show ?thesis by auto
  next
    case duplicate
    let ?s1 = "s\<lparr>warnings := warnings s @ [''Duplicate CSS detected: '' @ normalizePath p]\<rparr>"
    have first: "ensureCSS E p s = Normal ?s1"
      by (rule ensureCSS_duplicate [OF duplicate(1,2)])
    have "\<not> set_has (loadedCSS ?s1) (normalizePath q)" "existingLink E (normalizePath q) ?s1"
      using duplicate(1,2) assms(1) by (simp_all add: existingLink_def)
    from ensureCSS_duplicate [OF this] first duplicate(1,3) show ?thesis by auto
  qed
qed

lemmas spec_eval = spec_normalize_def spec_trim_def is_whitespace_def whitespace_chars_def

text \<open>
  Claim C7. Take paths \<open>p\<close> and \<open>q\<close> that the specification normalizes to the same
  identifier (trimmed, leading and trailing slashes stripped), each with at most one
  slash at either end once trimmed. For such paths \<open>ensureCSS\<close> computes the identifier
  of the specification. After an \<open>ensureCSS(p)\<close> that settled and did not end in the
  error event of its link, \<open>ensureCSS(q)\<close> returns without attaching a link, without
  changing the tracked set and without reporting anything. When \<open>ensureCSS(p)\<close>
  succeeded by the load event of its link, or because the path was tracked already, the
  identifier of \<open>q\<close> is tracked and \<open>ensureCSS(q)\<close> returns at once, leaving the state as
  it is.
\<close>

theorem ensureCSS_same_normalized_path:
  assumes "spec_normalize p = spec_normalize q" and "slashed_once p" and "slashed_once q"
    and "\<not> error_fires E p s" and "\<not> never_settles E p s"
  shows "normalizePath p = spec_normalize p \<and> normalizePath q = spec_normalize q
       \<and> (\<exists>s1 s2. ensureCSS E p s = Normal s1 \<and> ensureCSS E q s1 = Normal s2
           \<and> head_links s2 = head_links s1 \<and> loadedCSS s2 = loadedCSS s1
           \<and> reports s2 = reports s1 \<and> body s2 = body s1
           \<and> (load_fires E p s \<or> set_has (loadedCSS s) (normalizePath p)
                \<longrightarrow> set_has (loadedCSS s1) (normalizePath q) \<and> s2 = s1))"
proof -
  have np: "normalizePath p = spec_normalize p" and nq: "normalizePath q = spec_normalize q"
    using assms(2,3) by (simp_all add: normalizePath_spec)
  then have "normalizePath p = normalizePath q" using assms(1) by simp
  from ensureCSS_again [OF this assms(4)] np nq show ?thesis by simp
qed

theorem ensureCSS_same_normalized_path_witness:
  "spec_normalize '' /style.css/ '' = spec_normalize ''style.css''
   \<and> slashed_once '' /style.css/ '' \<and> slashed_once ''style.css''
   \<and> \<not> error_fires sample_env '' /style.css/ '' initial_state
   \<and> \<not> never_settles sample_env '' /style.css/ '' initial_state
   \<and> load_fires sample_env '' /style.css/ '' initial_state
   \<and> normalizePath '' /style.css/ '' = ''style.css''
   \<and> ensureCSS sample_env ''style.css''
        (state_of (ensureCSS sample_env '' /style.css/ '' initial_state))
       = ensureCSS sample_env '' /style.css/ '' initial_state
   \<and> head_links (state_of (ensureCSS sample_env ''style.css''
        (state_of (ensureCSS sample_env '' /style.css/ '' initial_state))))
       = [\<lparr>link_href = ''style.css'', link_rel = ''stylesheet''\<rparr>]"
proof -
  have n: "spec_normalize '' /style.css/ '' = ''style.css''"
      "spec_normalize ''style.css'' = ''style.css''"
    by (simp_all add: spec_eval)
  have h: "spec_normalize '' /style.css/ '' = spec_normalize ''style.css''"
    by (simp only: n)
  have once: "slashed_once '' /style.css/ ''" "slashed_once ''style.css''"
    by (simp_all add: slashed_once_def spec_eval)
  have ok: "\<not> error_fires sample_env '' /style.css/ '' initial_state"
    by (simp add: error_fires_def sample_env_def)
  have loads: "load_fires sample_env '' /style.css/ '' initial_state"
    by (simp add: load_fires_def link_attached_def set_has_def existingLink_def
        initial_state_def sample_env_def)
  have settles: "\<not> never_settles sample_env '' /style.css/ '' initial_state"
    by (simp add: never_settles_def string_eval)
  from ensureCSS_same_normalized_path [OF h once ok settles] loads n obtain s1 where
      "normalizePath '' /style.css/ '' = ''style.css''"
      "ensureCSS sample_env '' /style.css/ '' initial_state = Normal s1"
      "ensureCSS sample_env ''style.css'' s1 = Normal s1"
    by auto
  moreover have "head_links (state_of (ensureCSS sample_env '' /style.css/ '' initial_state))
       = [\<lparr>link_href = ''style.css'', link_rel = ''stylesheet''\<rparr>]"
    unfolding ensureCSS_load [OF loads]
    by (simp add: string_eval initial_state_def)
  ultimately show ?thesis using h once ok settles loads by simp
qed

text \<open>
  The paths \<open>style.css\<close> and \<open>style.css//\<close> have the same identifier once trimmed and
  stripped of their slashes. \<open>ensureCSS\<close> strips one slash at either end: after
  \<open>ensureCSS('style.css')\<close> has loaded its stylesheet, \<open>ensureCSS('style.css//')\<close>
  attaches a second link and tracks a second identifier.
\<close>

theorem ensureCSS_same_normalized_path_counterexample:
  "spec_normalize ''style.css'' = spec_normalize ''style.css//''
   \<and> load_fires sample_env ''style.css'' initial_state
   \<and> head_links (state_of (ensureCSS sample_env ''style.css//''
        (state_of (ensureCSS sample_env ''style.css'' initial_state))))
       = [\<lparr>link_href = ''style.css'', link_rel = ''stylesheet''\<rparr>,
          \<lparr>link_href = ''style.css/'', link_rel = ''stylesheet''\<rparr>]
   \<and> loadedCSS (state_of (ensureCSS sample_env ''style.css//''
        (state_of (ensureCSS sample_env ''style.css'' initial_state))))
       = [''style.css'', ''style.css/'']"
  by (simp add: spec_eval load_fires_def link_attached_def ensureCSS_def string_eval set_has_def
      set_add_def existingLink_def initial_state_def sample_env_def Let_def)

section \<open>The home screen\<close>

lemma tokenize_append:
  "tokenize st (xs @ ys) =
     (case tokenize st xs of
        None \<Rightarrow> None
      | Some (st', es) \<Rightarrow> map_option (\<lambda>(t, es'). (t, es @ es')) (tokenize st' ys))"
proof (induction xs arbitrary: st)
  case Nil
  show ?case by (simp add: option.map_ident case_prod_unfold)
next
  case (Cons c cs)
  show ?case
    by (cases "step st c")
      (auto simp: Cons.IH option.map_comp comp_def case_prod_unfold split: option.splits)
qed

lemma tokenize_seq:
  "tokenize st xs = Some (st', es) \<Longrightarrow>
   tokenize st (xs @ ys) = map_option (\<lambda>(t, es'). (t, es @ es')) (tokenize st' ys)"
  by (simp add: tokenize_append)

lemma tokenize_cat:
  "tokenize st xs = Some (st', es) \<Longrightarrow> tokenize st' ys = Some (st'', es') \<Longrightarrow>
   tokenize st (xs @ ys) = Some (st'', es @ es')"
  by (simp add: tokenize_append)

lemma tokenize_text:
  "\<forall>c \<in> set cs. c \<notin> set markup_special \<Longrightarrow> tokenize Data cs = Some (Data, [])"
  by (induction cs) (auto simp: markup_special_def data_step_def)

lemma tokenize_value:
  "\<forall>c \<in> set k. c \<notin> set markup_special \<Longrightarrow>
   tokenize (ValueDoubleQuoted p n v) k = Some (ValueDoubleQuoted p n (v @ k), [])"
  by (induction k arbitrary: v) (auto simp: markup_special_def)

lemma set_remove_first: "set (remove_first pat s) \<subseteq> set s"
  by (induction s) (auto dest: in_set_dropD)

lemma tokenize_indent: "tokenize Data (indent n) = Some (Data, [])"
  by (rule tokenize_text) (auto simp: indent_def markup_special_def)

lemma tokenize_floor_open:
  \<open>tokenize Data ''<div class="floor" data-game="''
     = Some (ValueDoubleQuoted
               \<lparr>is_end_tag = False, pending_name = ''div'',
                pending_attributes = [(''class'', ''floor'')]\<rparr> ''data-game'' [], [])\<close>
  by (simp add: tokenizer_eval)

lemma tokenize_floor_close:
  \<open>tokenize (ValueDoubleQuoted
               \<lparr>is_end_tag = False, pending_name = ''div'',
                pending_attributes = [(''class'', ''floor'')]\<rparr> ''data-game'' k) ''">''
     = Some (Data, [floor_element k])\<close>
  by (simp add: tokenizer_eval floor_element_def)

lemma tokenize_end_div: "tokenize Data ''</div>'' = Some (Data, [])"
  by (simp add: tokenizer_eval)

lemma tokenize_floor_markup:
  assumes "markup_plain k"
  shows "tokenize Data (floor_markup k) = Some (Data, [floor_element k])"
proof -
  have plain: "\<forall>c \<in> set k. c \<notin> set markup_special"
    using assms by (simp add: markup_plain_def list_all_iff)
  have "\<forall>c \<in> set (floor_word @ '' '' @ remove_first ''game'' k). c \<notin> set markup_special"
    using plain set_remove_first [of "''game''" k]
    by (auto simp: floor_word_def markup_special_def)
  then have label: "tokenize Data (floor_word @ '' '' @ remove_first ''game'' k) = Some (Data, [])"
    by (rule tokenize_text)
  have s4: "tokenize Data ((floor_word @ '' '' @ remove_first ''game'' k) @ ''</div>'')
              = Some (Data, [])"
    unfolding tokenize_seq [OF label] tokenize_end_div by simp
  have s3: \<open>tokenize (ValueDoubleQuoted
               \<lparr>is_end_tag = False, pending_name = ''div'',
                pending_attributes = [(''class'', ''floor'')]\<rparr> ''data-game'' k)
             (''">'' @ (floor_word @ '' '' @ remove_first ''game'' k) @ ''</div>'')
          = Some (Data, [floor_element k])\<close>
    unfolding tokenize_seq [OF tokenize_floor_close] s4 by simp
  have s2: \<open>tokenize (ValueDoubleQuoted
               \<lparr>is_end_tag = False, pending_name = ''div'',
                pending_attributes = [(''class'', ''floor'')]\<rparr> ''data-game'' [])
             (k @ ''">'' @ (floor_word @ '' '' @ remove_first ''game'' k) @ ''</div>'')
          = Some (Data, [floor_element k])\<close>
    unfolding tokenize_seq [OF tokenize_value [OF plain]] by (simp only: append_Nil s3) simp
  have s1: \<open>tokenize Data (''<div class="floor" data-game="'' @ k @ ''">''
               @ (floor_word @ '' '' @ remove_first ''game'' k) @ ''</div>'')
          = Some (Data, [floor_element k])\<close>
    unfolding tokenize_seq [OF tokenize_floor_open] s2 by simp
  have \<open>floor_markup k = ''<div class="floor" data-game="'' @ k @ ''">''
               @ (floor_word @ '' '' @ remove_first ''game'' k) @ ''</div>''\<close>
    by (simp add: floor_markup_def)
  then show ?thesis using s1 by (simp only:)
qed

lemma tokenize_floors:
  "\<forall>k \<in> set ks. markup_plain k \<Longrightarrow>
   tokenize Data (concat (map floor_markup ks)) = Some (Data, map floor_element ks)"
  by (induction ks) (simp_all add: tokenize_append tokenize_floor_markup)

lemma tokenize_frame_open:
  \<open>tokenize Data (indent 12 @ ''<div class="container">''
      @ indent 16 @ ''<img src="logo.png" alt="Logo">''
      @ indent 16 @ ''<div class="building">'' @ indent 20) = Some (Data, home_frame)\<close>
proof -
  have a: \<open>tokenize Data ''<div class="container">''
             = Some (Data, [\<lparr>tag_name = ''div'', attributes = [(''class'', ''container'')],
                            click_listeners = []\<rparr>])\<close>
    by (simp add: tokenizer_eval)
  have b: \<open>tokenize Data ''<img src="logo.png" alt="Logo">''
             = Some (Data, [\<lparr>tag_name = ''img'',
                             attributes = [(''src'', ''logo.png''), (''alt'', ''Logo'')],
                             click_listeners = []\<rparr>])\<close>
    by (simp add: tokenizer_eval)
  have c: \<open>tokenize Data ''<div class="building">''
             = Some (Data, [\<lparr>tag_name = ''div'', attributes = [(''class'', ''building'')],
                            click_listeners = []\<rparr>])\<close>
    by (simp add: tokenizer_eval)
  have "tokenize Data (indent 12 @ ''<div class=\"container\">''
      @ indent 16 @ ''<img src=\"logo.png\" alt=\"Logo\">''
      @ indent 16 @ ''<div class=\"building\">'' @ indent 20)
    = Some (Data, [] @ [\<lparr>tag_name = ''div'', attributes = [(''class'', ''container'')],
                            click_listeners = []\<rparr>]
        @ [] @ [\<lparr>tag_name = ''img'',
                             attributes = [(''src'', ''logo.png''), (''alt'', ''Logo'')],
                             click_listeners = []\<rparr>]
        @ [] @ [\<lparr>tag_name = ''div'', attributes = [(''class'', ''building'')],
                            click_listeners = []\<rparr>] @ [])"
    by (rule tokenize_cat, rule tokenize_indent, rule tokenize_cat, rule a,
        rule tokenize_cat, rule tokenize_indent, rule tokenize_cat, rule b,
        rule tokenize_cat, rule tokenize_indent, rule tokenize_cat, rule c,
        rule tokenize_indent)
  then show ?thesis by (simp only: home_frame_def append_Nil append_Nil2 append_Cons)
qed

lemma tokenize_frame_close:
  "tokenize Data (indent 16 @ ''</div>'' @ indent 12 @ ''</div>'' @ indent 8) = Some (Data, [])"
proof -
  have "tokenize Data (indent 16 @ ''</div>'' @ indent 12 @ ''</div>'' @ indent 8)
          = Some (Data, [] @ [] @ [] @ [] @ [])"
    by (rule tokenize_cat, rule tokenize_indent, rule tokenize_cat, rule tokenize_end_div,
        rule tokenize_cat, rule tokenize_indent, rule tokenize_cat, rule tokenize_end_div,
        rule tokenize_indent)
  then show ?thesis by simp
qed

lemma parse_generateHomeScreen:
  assumes "\<forall>k \<in> set (Object_keys (games E)). markup_plain k"
  shows "parse_fragment (generateHomeScreen E)
           = Some (home_frame @ map floor_element (rev (Object_keys (games E))))"
proof -
  let ?ks = "rev (Object_keys (games E))"
  have floors: "tokenize Data (concat (map floor_markup ?ks)) = Some (Data, map floor_element ?ks)"
    using assms by (intro tokenize_floors) simp
  have \<open>generateHomeScreen E =
      (indent 12 @ ''<div class="container">''
        @ indent 16 @ ''<img src="logo.png" alt="Logo">''
        @ indent 16 @ ''<div class="building">'' @ indent 20)
      @ concat (map floor_markup ?ks)
      @ (indent 16 @ ''</div>'' @ indent 12 @ ''</div>'' @ indent 8)\<close>
    by (simp only: generateHomeScreen_def append_assoc)
  moreover have "tokenize Data (
      (indent 12 @ ''<div class=\"container\">''
        @ indent 16 @ ''<img src=\"logo.png\" alt=\"Logo\">''
        @ indent 16 @ ''<div class=\"building\">'' @ indent 20)
      @ concat (map floor_markup ?ks)
      @ (indent 16 @ ''</div>'' @ indent 12 @ ''</div>'' @ indent 8))
      = Some (Data, home_frame @ map floor_element ?ks @ [])"
    by (rule tokenize_cat, rule tokenize_frame_open, rule tokenize_cat, rule floors,
        rule tokenize_frame_close)
  ultimately have "tokenize Data (generateHomeScreen E)
               = Some (Data, home_frame @ map floor_element ?ks)"
    by (simp only: append_Nil2)
  then show ?thesis by (simp add: parse_fragment_def)
qed

lemma floor_elements_floors:
  "floor_elements (map Generic (map floor_element ks) @ rest) = map floor_element ks @ floor_elements rest"
  by (induction ks)
    (simp_all add: has_class_def class_tokens_def floor_element_def is_html_space_def)

lemma floor_elements_home:
  "floor_elements (map Generic (home_frame @ map floor_element ks)) = map floor_element ks"
proof -
  have "floor_elements (map Generic home_frame @ rest) = floor_elements rest" for rest
    by (simp add: home_frame_def has_class_def class_tokens_def is_html_space_def)
  then show ?thesis using floor_elements_floors [of ks "[]"] by simp
qed


lemma data_game_floors: "map data_game (map floor_element ks) = map Some ks"
  by (simp add: data_game_def floor_element_def)

lemma tokenize_floor_markup_tag:
  "tokenize Data (floor_markup ''<div class=floor>'')
     = Some (Data, [floor_element ''<div class=floor>'',
                    \<lparr>tag_name = ''div'', attributes = [(''class'', ''floor'')],
                     click_listeners = []\<rparr>])"
  by (simp add: floor_markup_def floor_word_def tokenizer_eval floor_element_def)

lemma parse_generateHomeScreen_tag:
  "parse_fragment (generateHomeScreen tag_env)
     = Some (home_frame @
         [floor_element ''game1'', floor_element ''<div class=floor>'',
          \<lparr>tag_name = ''div'', attributes = [(''class'', ''floor'')], click_listeners = []\<rparr>])"
proof -
  have keys: "rev (Object_keys (games tag_env)) = [''game1'', ''<div class=floor>'']"
    by (simp add: tag_env_def sample_env_def Object_keys_def)
  have "markup_plain ''game1''" by (simp add: markup_plain_def markup_special_def)
  then have game1: "tokenize Data (floor_markup ''game1'') = Some (Data, [floor_element ''game1''])"
    by (rule tokenize_floor_markup)
  have \<open>generateHomeScreen tag_env =
      (indent 12 @ ''<div class="container">''
        @ indent 16 @ ''<img src="logo.png" alt="Logo">''
        @ indent 16 @ ''<div class="building">'' @ indent 20)
      @ floor_markup ''game1'' @ floor_markup ''<div class=floor>''
      @ (indent 16 @ ''</div>'' @ indent 12 @ ''</div>'' @ indent 8)\<close>
    by (simp only: generateHomeScreen_def keys append_assoc list.map concat.simps append_Nil)
  moreover have \<open>tokenize Data (
      (indent 12 @ ''<div class="container">''
        @ indent 16 @ ''<img src="logo.png" alt="Logo">''
        @ indent 16 @ ''<div class="building">'' @ indent 20)
      @ floor_markup ''game1'' @ floor_markup ''<div class=floor>''
      @ (indent 16 @ ''</div>'' @ indent 12 @ ''</div>'' @ indent 8))
      = Some (Data, home_frame @ [floor_element ''game1'']
          @ [floor_element ''<div class=floor>'',
             \<lparr>tag_name = ''div'', attributes = [(''class'', ''floor'')],
              click_listeners = []\<rparr>] @ [])\<close>
    by (rule tokenize_cat, rule tokenize_frame_open, rule tokenize_cat, rule game1,
        rule tokenize_cat, rule tokenize_floor_markup_tag, rule tokenize_frame_close)
  ultimately show ?thesis by (simp add: parse_fragment_def)
qed

text \<open>
  Claim C6. For a registry whose keys hold no double quote, ampersand, less-than sign,
  NUL or carriage return, the markup of the home screen parses to the container, the
  logo and the building followed by one floor per registry entry: the rendered screen
  has as many floor elements as the registry has entries, and their \<open>data-game\<close>
  attributes are the keys in reverse order.
\<close>

theorem generateHomeScreen_floors_reversed:
  assumes "list_all markup_plain (Object_keys (games E))"
  shows "parse_markup E (generateHomeScreen E)
           = map Generic (home_frame @ map floor_element (rev (Object_keys (games E))))
       \<and> length (floor_elements (parse_markup E (generateHomeScreen E))) = length (games E)
       \<and> map data_game (floor_elements (parse_markup E (generateHomeScreen E)))
           = map Some (rev (Object_keys (games E)))"
proof -
  have "\<forall>k \<in> set (Object_keys (games E)). markup_plain k"
    using assms by (simp add: list_all_iff)
  then have parsed: "parse_markup E (generateHomeScreen E)
           = map Generic (home_frame @ map floor_element (rev (Object_keys (games E))))"
    by (simp add: parse_markup_def parse_generateHomeScreen)
  have floors: "floor_elements (parse_markup E (generateHomeScreen E))
          = map floor_element (rev (Object_keys (games E)))"
    unfolding parsed by (rule floor_elements_home)
  show ?thesis
  proof (intro conjI)
    show "parse_markup E (generateHomeScreen E)
           = map Generic (home_frame @ map floor_element (rev (Object_keys (games E))))"
      by (rule parsed)
    show "length (floor_elements (parse_markup E (generateHomeScreen E))) = length (games E)"
      unfolding floors by (simp add: Object_keys_def)
    show "map data_game (floor_elements (parse_markup E (generateHomeScreen E)))
           = map Some (rev (Object_keys (games E)))"
      unfolding floors by (rule data_game_floors)
  qed
qed

theorem generateHomeScreen_floors_reversed_witness:
  "list_all markup_plain (Object_keys (games sample_env))
   \<and> length (floor_elements (parse_markup sample_env (generateHomeScreen sample_env))) = 3
   \<and> map data_game (floor_elements (parse_markup sample_env (generateHomeScreen sample_env)))
       = [Some ''game3'', Some ''game2'', Some ''game1'']"
proof -
  have h: "list_all markup_plain (Object_keys (games sample_env))"
    by (simp add: sample_env_def sample_games_def Object_keys_def markup_plain_def
        markup_special_def)
  have keys: "Object_keys (games sample_env) = [''game1'', ''game2'', ''game3'']"
      "length (games sample_env) = 3"
    by (simp_all add: sample_env_def sample_games_def Object_keys_def)
  from generateHomeScreen_floors_reversed [OF h] have
      "length (floor_elements (parse_markup sample_env (generateHomeScreen sample_env)))
         = length (games sample_env)"
      "map data_game (floor_elements (parse_markup sample_env (generateHomeScreen sample_env)))
         = map Some (rev (Object_keys (games sample_env)))"
    by blast+
  then show ?thesis using h unfolding keys by simp
qed

text \<open>
  A registry with the two keys \<open><div class=floor>\<close> and \<open>game1\<close>: the first key is pasted
  into the text of its floor, where it is a tag, so the rendered home screen has three
  floor elements for two entries, the third without a \<open>data-game\<close> attribute.
\<close>

theorem generateHomeScreen_floors_counterexample:
  "length (games tag_env) = 2
   \<and> length (floor_elements (parse_markup tag_env (generateHomeScreen tag_env))) = 3
   \<and> map data_game (floor_elements (parse_markup tag_env (generateHomeScreen tag_env)))
       = [Some ''game1'', Some ''<div class=floor>'', None]"
proof -
  have "length (games tag_env) = 2" by (simp add: tag_env_def)
  moreover have "floor_elements (parse_markup tag_env (generateHomeScreen tag_env))
      = [floor_element ''game1'', floor_element ''<div class=floor>'',
         \<lparr>tag_name = ''div'', attributes = [(''class'', ''floor'')], click_listeners = []\<rparr>]"
    unfolding parse_markup_def parse_generateHomeScreen_tag
    by (simp add: home_frame_def floor_element_def has_class_def class_tokens_def
        is_html_space_def)
  ultimately show ?thesis by (simp add: data_game_def floor_element_def)
qed

subsection \<open>Wiring the floors\<close>

lemma wire_first_frame:
  "wire_first g (map Generic home_frame @ rest)
     = map_option ((@) (map Generic home_frame)) (wire_first g rest)"
  by (cases "wire_first g rest") (simp_all add: home_frame_def)

lemma wire_first_floors:
  "g \<in> set ks \<Longrightarrow> distinct ks \<Longrightarrow> g \<notin> W \<Longrightarrow>
     wire_first g (map (\<lambda>k. Generic (if k \<in> W then wired_floor k else floor_element k)) ks)
       = Some (map (\<lambda>k. Generic (if k \<in> insert g W then wired_floor k else floor_element k)) ks)"
proof (induction ks)
  case Nil
  then show ?case by simp
next
  case (Cons k ks)
  show ?case
  proof (cases "k = g")
    case True
    then have "g \<notin> set ks" using Cons.prems(2) by simp
    then have "map (\<lambda>k. Generic (if k \<in> insert g W then wired_floor k else floor_element k)) ks
             = map (\<lambda>k. Generic (if k \<in> W then wired_floor k else floor_element k)) ks"
      by (intro map_cong) auto
    with True Cons.prems(3) show ?thesis
      by (simp add: wired_floor_def floor_element_def)
  next
    case False
    with Cons.prems have "g \<in> set ks" "distinct ks" by simp_all
    from Cons.IH [OF this Cons.prems(3)] False show ?thesis
      by (simp add: wired_floor_def floor_element_def add_click_listener_def)
  qed
qed

lemma setup_each_wires:
  "distinct gs \<Longrightarrow> set gs \<subseteq> set ks \<Longrightarrow> distinct ks \<Longrightarrow> W \<inter> set gs = {} \<Longrightarrow>
   list_all selector_plain gs \<Longrightarrow>
     setup_each E gs
       (s\<lparr>body := map Generic home_frame
            @ map (\<lambda>k. Generic (if k \<in> W then wired_floor k else floor_element k)) ks\<rparr>)
     = Normal
       (s\<lparr>body := map Generic home_frame
            @ map (\<lambda>k. Generic (if k \<in> W \<union> set gs then wired_floor k else floor_element k)) ks\<rparr>)"
proof (induction gs arbitrary: W)
  case Nil
  then show ?case by simp
next
  case (Cons g gs)
  have g: "g \<in> set ks" "g \<notin> W" "selector_plain g" using Cons.prems by auto
  have step:
    "wire_first g (map Generic home_frame
        @ map (\<lambda>k. Generic (if k \<in> W then wired_floor k else floor_element k)) ks)
      = Some (map Generic home_frame
        @ map (\<lambda>k. Generic (if k \<in> insert g W then wired_floor k else floor_element k)) ks)"
    by (simp only: wire_first_frame wire_first_floors [OF g(1) Cons.prems(3) g(2)] option.map)
  have "distinct gs" "set gs \<subseteq> set ks" "insert g W \<inter> set gs = {}" "list_all selector_plain gs"
    using Cons.prems by auto
  from Cons.IH [OF this(1,2) Cons.prems(3) this(3,4)] step g(3) show ?case by simp
qed

lemma show_home_wires:
  assumes "distinct (Object_keys (games E))" and "plain_keys E"
  shows "show_home E u
           = Normal (u\<lparr>screens_home := Some (generateHomeScreen E), body := wired_home E\<rparr>)"
proof -
  let ?ks = "Object_keys (games E)"
  let ?u = "u\<lparr>screens_home := Some (generateHomeScreen E)\<rparr>"
  have plain: "list_all markup_plain ?ks" "list_all selector_plain ?ks"
    using assms(2) by (simp_all add: plain_keys_def list_all_iff)
  then have "\<forall>k \<in> set ?ks. markup_plain k" by (simp add: list_all_iff)
  then have parsed: "parse_markup E (generateHomeScreen E)
           = map Generic home_frame @ map (\<lambda>k. Generic (floor_element k)) (rev ?ks)"
    by (simp add: parse_markup_def parse_generateHomeScreen comp_def)
  have "setup_each E ?ks
       (?u\<lparr>body := map Generic home_frame
            @ map (\<lambda>k. Generic (if k \<in> {} then wired_floor k else floor_element k)) (rev ?ks)\<rparr>)
     = Normal
       (?u\<lparr>body := map Generic home_frame
            @ map (\<lambda>k. Generic (if k \<in> {} \<union> set ?ks then wired_floor k else floor_element k))
                (rev ?ks)\<rparr>)"
    using assms(1) plain(2) by (intro setup_each_wires) auto
  moreover have
    "map (\<lambda>k. Generic (if k \<in> {} \<union> set ?ks then wired_floor k else floor_element k)) (rev ?ks)
       = map (\<lambda>k. Generic (wired_floor k)) (rev ?ks)"
    by (intro map_cong) auto
  ultimately show ?thesis
    by (simp add: show_home_def setupFloorListeners_def parsed wired_home_def comp_def)
qed

lemma wired_home_no_placeholder: "remove1 Placeholder (wired_home E) = wired_home E"
  by (rule remove1_idem) (auto simp: wired_home_def)

lemma wired_home_not_empty: "wired_home E \<noteq> []"
  by (simp add: wired_home_def home_frame_def)

section \<open>Transitions that fail\<close>

text \<open>The \<open>catch\<close> and \<open>finally\<close> blocks of \<open>loadScreen\<close> after a failed \<open>try\<close> block.\<close>

lemma loadScreen_recovers:
  assumes tr: "loadScreen_try E screenId s = Throws (ErrorValue error) t"
    and keys: "distinct (Object_keys (games E))" "plain_keys E"
  shows "\<exists>s'. loadScreen E screenId s = Normal s'
           \<and> body s' = wired_home E
           \<and> reports s' = reports t @ [\<lparr>report_context = ''app.loadScreen'', report_error = error\<rparr>]
           \<and> loadingScreen s' = loadingScreen (LoadingScreen_hide t)
           \<and> location_href s' = location_href t"
proof -
  let ?t1 = "showUserFriendlyError (user_message_for error)
               (t\<lparr>console_errors := console_errors t
                    @ [(''Error in loadScreen:'', ErrorValue error)],
                  reports := reports t
                    @ [\<lparr>report_context = ''app.loadScreen'', report_error = error\<rparr>]\<rparr>)"
  let ?t2 = "?t1\<lparr>screens_home := Some (generateHomeScreen E), body := wired_home E\<rparr>"
  have eq: "loadScreen E screenId s = Normal (loadScreen_finally ?t2)"
    by (simp add: loadScreen_def tr handleError_def show_home_wires [OF keys])
  have "body (loadScreen_finally ?t2) = wired_home E"
    by (simp add: loadScreen_finally_def Let_def LoadingScreen_hide_def wired_home_no_placeholder)
  moreover have "loadingScreen (loadScreen_finally ?t2) = loadingScreen (LoadingScreen_hide t)"
    by (simp add: loadScreen_finally_def Let_def showUserFriendlyError_frame
        LoadingScreen_hide_def)
  moreover have "reports (loadScreen_finally ?t2)
      = reports t @ [\<lparr>report_context = ''app.loadScreen'', report_error = error\<rparr>]"
     "location_href (loadScreen_finally ?t2) = location_href t"
    by (simp_all add: loadScreen_finally_def Let_def showUserFriendlyError_frame
        LoadingScreen_hide_def)
  ultimately show ?thesis using eq by simp
qed

text \<open>The two global stylesheets: both calls return, and only they can add reports.\<close>

lemma global_css:
  "\<exists>s3 rs. then_do (ensureCSS E ''style.css'' (s\<lparr>body := body s @ [Placeholder]\<rparr>))
              (ensureCSS E ''components/loadingScreen/loadingScreen.css'') = Normal s3
      \<and> loadingScreen s3 = loadingScreen s \<and> location_href s3 = location_href s
      \<and> reports s3 = reports s @ rs
      \<and> set rs \<subseteq> {css_failure_report ''style.css'',
                    css_failure_report ''components/loadingScreen/loadingScreen.css''}
      \<and> (css_load E ''style.css'' = onload
           \<and> css_load E ''components/loadingScreen/loadingScreen.css'' = onload \<longrightarrow> rs = [])"
proof -
  obtain s2 where s2: "ensureCSS E ''style.css'' (s\<lparr>body := body s @ [Placeholder]\<rparr>) = Normal s2"
      "loadingScreen s2 = loadingScreen s" "location_href s2 = location_href s"
      "reports s2 = reports s \<or> reports s2 = reports s @ [css_failure_report ''style.css'']"
      "css_load E ''style.css'' = onload \<longrightarrow> reports s2 = reports s"
    using ensureCSS_effect [of E "''style.css''" "s\<lparr>body := body s @ [Placeholder]\<rparr>"]
    by (auto simp: normalizePath_samples)
  obtain s3 where s3: "ensureCSS E ''components/loadingScreen/loadingScreen.css'' s2 = Normal s3"
      "loadingScreen s3 = loadingScreen s2" "location_href s3 = location_href s2"
      "reports s3 = reports s2
        \<or> reports s3
            = reports s2 @ [css_failure_report ''components/loadingScreen/loadingScreen.css'']"
      "css_load E ''components/loadingScreen/loadingScreen.css'' = onload
        \<longrightarrow> reports s3 = reports s2"
    using ensureCSS_effect [of E "''components/loadingScreen/loadingScreen.css''" s2]
    by (auto simp: normalizePath_samples)
  have run: "then_do (ensureCSS E ''style.css'' (s\<lparr>body := body s @ [Placeholder]\<rparr>))
              (ensureCSS E ''components/loadingScreen/loadingScreen.css'') = Normal s3"
    by (simp add: then_do_def s2(1) s3(1))
  obtain rs2 where rs2: "reports s2 = reports s @ rs2"
      "set rs2 \<subseteq> {css_failure_report ''style.css''}"
      "css_load E ''style.css'' = onload \<longrightarrow> rs2 = []"
    using s2(4,5) by (cases "reports s2 = reports s") auto
  obtain rs3 where rs3: "reports s3 = reports s2 @ rs3"
      "set rs3 \<subseteq> {css_failure_report ''components/loadingScreen/loadingScreen.css''}"
      "css_load E ''components/loadingScreen/loadingScreen.css'' = onload \<longrightarrow> rs3 = []"
    using s3(4,5) by (cases "reports s3 = reports s2") auto
  have "reports s3 = reports s @ (rs2 @ rs3)" using rs2(1) rs3(1) by simp
  moreover have "set (rs2 @ rs3) \<subseteq> {css_failure_report ''style.css'',
                    css_failure_report ''components/loadingScreen/loadingScreen.css''}"
    using rs2(2) rs3(2) by auto
  moreover have "css_load E ''style.css'' = onload
           \<and> css_load E ''components/loadingScreen/loadingScreen.css'' = onload
           \<longrightarrow> rs2 @ rs3 = []"
    using rs2(3) rs3(3) by simp
  ultimately show ?thesis
    using run s2(2,3) s3(2,3) by (intro exI [of _ s3] exI [of _ "rs2 @ rs3"]) simp
qed

lemma loadScreen_try_unfold:
  "loadScreen_try E screenId s =
     then_do (then_do (ensureCSS E ''style.css'' (s\<lparr>body := body s @ [Placeholder]\<rparr>))
                (ensureCSS E ''components/loadingScreen/loadingScreen.css''))
       (\<lambda>s3.
             if screenId = ''home''
             then then_do (show_home E s3)
                    (\<lambda>s4. Normal (soundManager (Play ''commonSounds'' ''homeBackgroundMusic'') s4))
             else
               (let s4 = LoadingScreen_show (MsgLoadingOf screenId) s3 in
                case games_get (games E) screenId of
                  Own entry \<Rightarrow>
                    load_game E (Some (style entry)) (Some (script entry))
                      (soundManager (Stop ''commonSounds'') s4)
                | Inherited \<Rightarrow>
                    load_game E None None (soundManager (Stop ''commonSounds'') s4)
                | Missing \<Rightarrow>
                    Throws (ErrorValue (GameError ''Game not found'' (Some RESOURCE))) s4))"
  by (simp add: loadScreen_try_def then_do_def split: completion.splits)

lemma LoadingScreen_show_frame:
  "reports (LoadingScreen_show m s) = reports s"
  "location_href (LoadingScreen_show m s) = location_href s"
  "element_present (loadingScreen (LoadingScreen_show m s))"
  by (simp_all add: LoadingScreen_show_def)

lemma games_get_missing:
  "k \<notin> set (Object_keys obj) \<Longrightarrow> k \<notin> set object_prototype_names \<Longrightarrow> games_get obj k = Missing"
  by (simp add: games_get_def Object_keys_def map_of_eq_None_iff [THEN iffD2])

lemma games_get_own: "map_of obj k = Some entry \<Longrightarrow> games_get obj k = Own entry"
  by (simp add: games_get_def)

text \<open>
  A registry whose one key holds a double quote: the selector that the recovery callback
  builds for it is not valid, \<open>querySelector\<close> raises a \<open>SyntaxError\<close> inside the
  callback, and \<open>handleError\<close> answers with a navigation to the application root.
\<close>

lemma parse_generateHomeScreen_quoted:
  \<open>parse_fragment (generateHomeScreen quoted_env)
     = Some (home_frame @
         [\<lparr>tag_name = ''div'',
           attributes = [(''class'', ''floor''), (''data-game'', ''g''), (''1"'', [])],
           click_listeners = []\<rparr>])\<close>
proof -
  have keys: \<open>rev (Object_keys (games quoted_env)) = [''g"1'']\<close>
    by (simp add: quoted_env_def sample_env_def Object_keys_def)
  have floor: \<open>tokenize Data (floor_markup ''g"1'')
      = Some (Data, [\<lparr>tag_name = ''div'',
           attributes = [(''class'', ''floor''), (''data-game'', ''g''), (''1"'', [])],
           click_listeners = []\<rparr>])\<close>
    by (simp add: floor_markup_def floor_word_def tokenizer_eval)
  have \<open>generateHomeScreen quoted_env =
      (indent 12 @ ''<div class="container">''
        @ indent 16 @ ''<img src="logo.png" alt="Logo">''
        @ indent 16 @ ''<div class="building">'' @ indent 20)
      @ floor_markup ''g"1''
      @ (indent 16 @ ''</div>'' @ indent 12 @ ''</div>'' @ indent 8)\<close>
    by (simp only: generateHomeScreen_def keys append_assoc list.map concat.simps append_Nil2)
  moreover have \<open>tokenize Data (
      (indent 12 @ ''<div class="container">''
        @ indent 16 @ ''<img src="logo.png" alt="Logo">''
        @ indent 16 @ ''<div class="building">'' @ indent 20)
      @ floor_markup ''g"1''
      @ (indent 16 @ ''</div>'' @ indent 12 @ ''</div>'' @ indent 8))
      = Some (Data, home_frame @ [\<lparr>tag_name = ''div'',
           attributes = [(''class'', ''floor''), (''data-game'', ''g''), (''1"'', [])],
           click_listeners = []\<rparr>] @ [])\<close>
    by (rule tokenize_cat, rule tokenize_frame_open, rule tokenize_cat, rule floor,
        rule tokenize_frame_close)
  ultimately show ?thesis by (simp add: parse_fragment_def)
qed

lemma show_home_quoted:
  \<open>show_home quoted_env u
     = Throws (ErrorValue (OtherError ''SyntaxError''))
         (u\<lparr>screens_home := Some (generateHomeScreen quoted_env),
            body := map Generic (home_frame @
              [\<lparr>tag_name = ''div'',
                attributes = [(''class'', ''floor''), (''data-game'', ''g''), (''1"'', [])],
                click_listeners = []\<rparr>])\<rparr>)\<close>
proof -
  have keys: \<open>Object_keys (games quoted_env) = [''g"1'']\<close>
      "other_selectors quoted_env = (\<lambda>sel es. SyntaxError)"
    by (simp_all add: quoted_env_def sample_env_def Object_keys_def)
  show ?thesis
    unfolding show_home_def setupFloorListeners_def parse_markup_def
      parse_generateHomeScreen_quoted keys
    by (simp add: selector_plain_def selector_special_def keys(2))
qed

lemma loadScreen_quoted_key_navigates:
  "location_href (state_of (loadScreen quoted_env ''unknown-game'' initial_state)) = Some ''/''
   \<and> map click_listeners
        (floor_elements (body (state_of (loadScreen quoted_env ''unknown-game'' initial_state))))
       = [[]]"
proof -
  have env: "css_load quoted_env = (\<lambda>p. onload)" "resolve_url quoted_env = resolve_url sample_env"
      \<open>games_get (games quoted_env) ''unknown-game'' = Missing\<close>
    by (simp_all add: quoted_env_def sample_env_def games_get_def object_prototype_names_def)
  show ?thesis
    unfolding loadScreen_def loadScreen_try_def
    by (simp add: env then_do_def ensureCSS_def existingLink_def set_has_def set_add_def
        handleError_def showUserFriendlyError_def LoadingScreen_show_def LoadingScreen_hide_def
        loadScreen_finally_def show_home_quoted initial_state_def sample_env_def string_eval
        Let_def home_frame_def has_class_def class_tokens_def is_html_space_def)
qed

text \<open>
  Claim C1, as the code has it. Take a registry of distinct keys, none of which holds a
  character that the markup parser or the selector of \<open>querySelector\<close> does not read
  as itself. For every screen identifier that is not \<open>home\<close>, not a key of the registry
  and not the name of a property the registry object inherits from \<open>Object.prototype\<close>:
  \<open>loadScreen\<close> returns; the body then holds exactly the elements of the home screen,
  each floor with its one click listener, so it is not empty; \<open>loadScreen\<close> itself hands
  exactly one error to \<open>handleError\<close>, the \<open>RESOURCE\<close> error \<open>Game not found\<close>, as the
  last report of the call; the only other reports of the call are those \<open>ensureCSS\<close>
  makes for a global stylesheet that fails to load, and there is none when both load; no
  page navigation takes place.
\<close>

theorem loadScreen_unknown_recovers_home:
  assumes "screenId \<noteq> ''home''"
    and "screenId \<notin> set (Object_keys (games E))"
    and "screenId \<notin> set object_prototype_names"
    and "distinct (Object_keys (games E))"
    and "plain_keys E"
  shows "\<exists>s' rs. loadScreen E screenId s = Normal s'
           \<and> body s' = wired_home E \<and> body s' \<noteq> []
           \<and> reports s' = reports s @ rs @ [not_found_report]
           \<and> set rs \<subseteq> {css_failure_report ''style.css'',
                    css_failure_report ''components/loadingScreen/loadingScreen.css''}
           \<and> (css_load E ''style.css'' = onload
                \<and> css_load E ''components/loadingScreen/loadingScreen.css'' = onload
                \<longrightarrow> rs = [])
           \<and> location_href s' = location_href s"
proof -
  from global_css [of E s] obtain s3 rs where g:
      "then_do (ensureCSS E ''style.css'' (s\<lparr>body := body s @ [Placeholder]\<rparr>))
              (ensureCSS E ''components/loadingScreen/loadingScreen.css'') = Normal s3"
      "location_href s3 = location_href s" "reports s3 = reports s @ rs"
      "set rs \<subseteq> {css_failure_report ''style.css'',
                    css_failure_report ''components/loadingScreen/loadingScreen.css''}"
      "css_load E ''style.css'' = onload
           \<and> css_load E ''components/loadingScreen/loadingScreen.css'' = onload \<longrightarrow> rs = []"
    by blast
  let ?t = "LoadingScreen_show (MsgLoadingOf screenId) s3"
  have missing: "games_get (games E) screenId = Missing"
    using assms(2,3) by (rule games_get_missing)
  have "loadScreen_try E screenId s
          = Throws (ErrorValue (GameError ''Game not found'' (Some RESOURCE))) ?t"
    unfolding loadScreen_try_unfold g(1) using assms(1) missing by (simp add: then_do_def)
  from loadScreen_recovers [OF this assms(4,5)] obtain s' where s':
      "loadScreen E screenId s = Normal s'" "body s' = wired_home E"
      "reports s' = reports ?t @ [not_found_report]" "location_href s' = location_href ?t"
    by (auto simp: not_found_report_def)
  then have "reports s' = reports s @ rs @ [not_found_report]"
      "location_href s' = location_href s" "body s' \<noteq> []"
    using g(2,3) by (simp_all add: LoadingScreen_show_frame wired_home_not_empty)
  with s'(1,2) g(4,5) show ?thesis by blast
qed

theorem loadScreen_unknown_recovers_home_witness:
  "''unknown-game'' \<noteq> ''home''
   \<and> ''unknown-game'' \<notin> set (Object_keys (games sample_env))
   \<and> ''unknown-game'' \<notin> set object_prototype_names
   \<and> distinct (Object_keys (games sample_env))
   \<and> plain_keys sample_env
   \<and> body (state_of (loadScreen sample_env ''unknown-game'' initial_state))
       = [Generic \<lparr>tag_name = ''div'', attributes = [(''class'', ''container'')],
                   click_listeners = []\<rparr>,
          Generic \<lparr>tag_name = ''img'', attributes = [(''src'', ''logo.png''), (''alt'', ''Logo'')],
                   click_listeners = []\<rparr>,
          Generic \<lparr>tag_name = ''div'', attributes = [(''class'', ''building'')],
                   click_listeners = []\<rparr>,
          Generic \<lparr>tag_name = ''div'',
                   attributes = [(''class'', ''floor''), (''data-game'', ''game3'')],
                   click_listeners = [''game3'']\<rparr>,
          Generic \<lparr>tag_name = ''div'',
                   attributes = [(''class'', ''floor''), (''data-game'', ''game2'')],
                   click_listeners = [''game2'']\<rparr>,
          Generic \<lparr>tag_name = ''div'',
                   attributes = [(''class'', ''floor''), (''data-game'', ''game1'')],
                   click_listeners = [''game1'']\<rparr>]
   \<and> reports (state_of (loadScreen sample_env ''unknown-game'' initial_state))
       = [\<lparr>report_context = ''app.loadScreen'',
           report_error = GameError ''Game not found'' (Some RESOURCE)\<rparr>]"
proof -
  have h: "''unknown-game'' \<noteq> ''home''"
      "''unknown-game'' \<notin> set (Object_keys (games sample_env))"
      "''unknown-game'' \<notin> set object_prototype_names"
      "distinct (Object_keys (games sample_env))"
      "plain_keys sample_env"
    by (simp_all add: Object_keys_def sample_env_def sample_games_def object_prototype_names_def
        plain_keys_def markup_plain_def markup_special_def selector_plain_def
        selector_special_def)
  have loads: "css_load sample_env ''style.css'' = onload
      \<and> css_load sample_env ''components/loadingScreen/loadingScreen.css'' = onload"
    by (simp add: sample_env_def)
  from loadScreen_unknown_recovers_home [OF h, of initial_state] loads obtain s' where
      "loadScreen sample_env ''unknown-game'' initial_state = Normal s'"
      "body s' = wired_home sample_env"
      "reports s' = reports initial_state @ [not_found_report]"
    by auto
  then show ?thesis
    using h
    by (simp add: wired_home_def wired_floor_def floor_element_def home_frame_def
        add_click_listener_def Object_keys_def sample_env_def
        sample_games_def not_found_report_def initial_state_def)
qed

text \<open>
  The claim as stated fails in two ways. \<open>toString\<close> is neither \<open>home\<close> nor a key of
  the registry, but \<open>games['toString']\<close> is the inherited function, so the game branch
  runs with no stylesheet and no script: the reports are an \<open>ASSET_LOADING\<close> and a
  \<open>GAME_INITIALIZATION\<close> error and none of kind \<open>RESOURCE\<close>. And when the global
  stylesheets fail to load, an unknown identifier gives three \<open>RESOURCE\<close> reports.
\<close>

theorem loadScreen_unknown_counterexample:
  "''toString'' \<noteq> ''home'' \<and> ''toString'' \<notin> set (Object_keys (games sample_env))
   \<and> map report_error (reports (state_of (loadScreen sample_env ''toString'' initial_state)))
       = [GameError ''CSS loading failed'' (Some ASSET_LOADING),
          GameError ''Failed to load game module'' (Some GAME_INITIALIZATION)]
   \<and> map report_error (reports (state_of (loadScreen offline_env ''unknown-game'' initial_state)))
       = [GameError ''Failed to load CSS: style.css'' (Some RESOURCE),
          GameError ''Failed to load CSS: components/loadingScreen/loadingScreen.css''
            (Some RESOURCE),
          GameError ''Game not found'' (Some RESOURCE)]"
proof -
  have home: "show_home sample_env u
           = Normal (u\<lparr>screens_home := Some (generateHomeScreen sample_env),
                       body := wired_home sample_env\<rparr>)"
      "show_home offline_env u
           = Normal (u\<lparr>screens_home := Some (generateHomeScreen offline_env),
                       body := wired_home offline_env\<rparr>)" for u
    by (rule show_home_wires;
        simp add: plain_keys_def sample_env_fields offline_env_fields sample_games_def
          Object_keys_def markup_plain_def markup_special_def selector_plain_def
          selector_special_def)+
  show ?thesis
    by (simp add: loadScreen_eval sample_env_fields offline_env_fields home)
qed

section \<open>A rejected import\<close>

lemma updates_frame:
  "reports (LoadingScreen_updateMessage m s) = reports s"
  "element_present (loadingScreen (LoadingScreen_updateMessage m s))
     = element_present (loadingScreen s)"
  "reports (LoadingScreen_updateProgress a b s) = reports s"
  "element_present (loadingScreen (LoadingScreen_updateProgress a b s))
     = element_present (loadingScreen s)"
  "reports (soundManager c s) = reports s"
  "loadingScreen (soundManager c s) = loadingScreen s"
  "location_href (LoadingScreen_updateMessage m s) = location_href s"
  "location_href (LoadingScreen_updateProgress a b s) = location_href s"
  "location_href (soundManager c s) = location_href s"
  by (simp_all add: LoadingScreen_updateMessage_def LoadingScreen_updateProgress_def
      soundManager_def)

lemma load_game_import_rejected:
  assumes "import_module E scr = ImportRejected (ErrorValue e)"
  shows "\<exists>t rs. load_game E (Some sty) (Some scr) s
             = Throws (ErrorValue (GameError ''Failed to load game module''
                                     (Some GAME_INITIALIZATION))) t
        \<and> reports t = reports s @ rs \<and> set rs \<subseteq> {css_failure_report sty}
        \<and> element_present (loadingScreen t) = element_present (loadingScreen s)
        \<and> location_href t = location_href s"
proof -
  let ?s0 = "LoadingScreen_updateMessage MsgLoadingStyles s"
  obtain s1 where s1: "ensureCSS E sty ?s0 = Normal s1" "loadingScreen s1 = loadingScreen ?s0"
      "reports s1 = reports ?s0 \<or> reports s1 = reports ?s0 @ [css_failure_report sty]"
      "location_href s1 = location_href ?s0"
    using ensureCSS_effect [of E sty ?s0] by auto
  let ?s2 = "LoadingScreen_updateMessage MsgLoadingGame (LoadingScreen_updateProgress 1 2 s1)"
  let ?t = "?s2\<lparr>console_errors := console_errors ?s2
                @ [(''Failed to load game module:'', ErrorValue e)]\<rparr>"
  have "start_module E (Some scr) ?s2 = Throws (ErrorValue e) ?s2"
    using assms by (simp add: start_module_def)
  then have run: "load_game E (Some sty) (Some scr) s
             = Throws (ErrorValue (GameError ''Failed to load game module''
                                     (Some GAME_INITIALIZATION))) ?t"
    by (simp add: load_game_def then_do_def s1(1) Let_def)
  obtain rs where rs: "reports s1 = reports s @ rs" "set rs \<subseteq> {css_failure_report sty}"
    using s1(3) by (cases "reports s1 = reports ?s0") (auto simp: updates_frame)
  have "reports ?t = reports s @ rs" using rs(1) by (simp add: updates_frame)
  moreover have "element_present (loadingScreen ?t) = element_present (loadingScreen s)"
    using s1(2) by (simp add: updates_frame)
  moreover have "location_href ?t = location_href s"
    using s1(4) by (simp add: updates_frame)
  ultimately show ?thesis using run rs(2) by blast
qed

lemma reports_of_kind_append:
  "reports s' = reports s @ rs \<Longrightarrow>
     reports_of_kind k s'
       = reports_of_kind k s @ filter (\<lambda>r. error_kind (report_error r) = Some k) rs"
  by (simp add: reports_of_kind_def)

lemma wired_home_elements:
  "LoadingScreenEl \<notin> set (wired_home E)" "Placeholder \<notin> set (wired_home E)"
  by (auto simp: wired_home_def)

text \<open>
  Claim C2, as the code has it. Take a registry of distinct keys, none of which holds a
  character that the markup parser or the selector of \<open>querySelector\<close> does not read
  as itself, and a key \<open>g\<close> of it other than \<open>home\<close>, with a stylesheet path that is not
  empty once normalized, whose script the dynamic import rejects with an error object.
  Then \<open>loadScreen(g)\<close> returns; the loading indicator has been told to hide and is no
  longer in the body; the placeholder is no longer in the body; the body holds exactly
  the elements of the home screen, each floor with its one click listener; exactly one
  report of kind \<open>GAME_INITIALIZATION\<close> is added, as the last report of the call, and
  the only other reports of the call are those \<open>ensureCSS\<close> makes for stylesheets that
  fail to load.
\<close>

theorem loadScreen_import_rejected_recovers_home:
  assumes "g \<noteq> ''home''" and "map_of (games E) g = Some entry"
    and "import_module E (script entry) = ImportRejected (ErrorValue e)"
    and "distinct (Object_keys (games E))"
    and "plain_keys E"
    and "normalizePath (style entry) \<noteq> []"
  shows "\<exists>s' rs. loadScreen E g s = Normal s'
           \<and> isHiding (loadingScreen s') \<and> LoadingScreenEl \<notin> set (body s')
           \<and> Placeholder \<notin> set (body s')
           \<and> body s' = wired_home E
           \<and> reports s' = reports s @ rs @ [module_failure_report]
           \<and> set rs \<subseteq> {css_failure_report ''style.css'',
                    css_failure_report ''components/loadingScreen/loadingScreen.css'',
                    css_failure_report (style entry)}
           \<and> reports_of_kind GAME_INITIALIZATION s'
               = reports_of_kind GAME_INITIALIZATION s @ [module_failure_report]
           \<and> location_href s' = location_href s"
proof -
  from global_css [of E s] obtain s3 rs where g:
      "then_do (ensureCSS E ''style.css'' (s\<lparr>body := body s @ [Placeholder]\<rparr>))
              (ensureCSS E ''components/loadingScreen/loadingScreen.css'') = Normal s3"
      "reports s3 = reports s @ rs"
      "set rs \<subseteq> {css_failure_report ''style.css'',
                    css_failure_report ''components/loadingScreen/loadingScreen.css''}"
      "location_href s3 = location_href s"
    by blast
  let ?s5 = "soundManager (Stop ''commonSounds'') (LoadingScreen_show (MsgLoadingOf g) s3)"
  from load_game_import_rejected [OF assms(3), of "style entry" ?s5] obtain t rs' where t:
      "load_game E (Some (style entry)) (Some (script entry)) ?s5
         = Throws (ErrorValue (GameError ''Failed to load game module''
                                 (Some GAME_INITIALIZATION))) t"
      "reports t = reports ?s5 @ rs'" "set rs' \<subseteq> {css_failure_report (style entry)}"
      "element_present (loadingScreen t) = element_present (loadingScreen ?s5)"
      "location_href t = location_href ?s5"
    by blast
  have tr: "loadScreen_try E g s
      = Throws (ErrorValue (GameError ''Failed to load game module''
                              (Some GAME_INITIALIZATION))) t"
    unfolding loadScreen_try_unfold g(1)
    using assms(1) t(1) by (simp add: then_do_def games_get_own [OF assms(2)])
  from loadScreen_recovers [OF tr assms(4,5)] obtain s' where s':
      "loadScreen E g s = Normal s'" "body s' = wired_home E"
      "reports s' = reports t @ [module_failure_report]"
      "loadingScreen s' = loadingScreen (LoadingScreen_hide t)"
      "location_href s' = location_href t"
    by (auto simp: module_failure_report_def)
  have present: "element_present (loadingScreen t)"
    using t(4) by (simp add: updates_frame LoadingScreen_show_frame)
  then have hiding: "isHiding (loadingScreen s')"
    using s'(4) by (simp add: LoadingScreen_hide_def)
  have reps: "reports s' = reports s @ (rs @ rs') @ [module_failure_report]"
    using s'(3) t(2) g(2) by (simp add: updates_frame LoadingScreen_show_frame)
  have sub: "set (rs @ rs') \<subseteq> {css_failure_report ''style.css'',
                    css_failure_report ''components/loadingScreen/loadingScreen.css'',
                    css_failure_report (style entry)}"
    using g(3) t(3) by auto
  have "filter (\<lambda>r. error_kind (report_error r) = Some GAME_INITIALIZATION) (rs @ rs') = []"
    using sub by (auto simp: filter_empty_conv css_failure_report_def)
  then have kind: "reports_of_kind GAME_INITIALIZATION s'
               = reports_of_kind GAME_INITIALIZATION s @ [module_failure_report]"
    using reports_of_kind_append [OF reps, of GAME_INITIALIZATION]
    by (simp add: module_failure_report_def)
  have gone: "LoadingScreenEl \<notin> set (body s')" "Placeholder \<notin> set (body s')"
    using s'(2) by (simp_all add: wired_home_elements)
  have "location_href s' = location_href s"
    using s'(5) t(5) g(4) by (simp add: updates_frame LoadingScreen_show_frame)
  with s'(1,2) hiding reps sub kind gone show ?thesis by blast
qed


theorem loadScreen_import_rejected_recovers_home_witness:
  "''game2'' \<noteq> ''home''
   \<and> map_of (games sample_env) ''game2''
       = Some \<lparr>script = ''./games/game2/game2.js'', style = ''games/game2/game2.css''\<rparr>
   \<and> import_module sample_env ''./games/game2/game2.js''
       = ImportRejected (ErrorValue (OtherError ''Failed to fetch module''))
   \<and> distinct (Object_keys (games sample_env))
   \<and> plain_keys sample_env
   \<and> normalizePath ''games/game2/game2.css'' \<noteq> []
   \<and> body (state_of (loadScreen sample_env ''game2'' initial_state)) = wired_home sample_env
   \<and> map click_listeners
        (floor_elements (body (state_of (loadScreen sample_env ''game2'' initial_state))))
       = [[''game3''], [''game2''], [''game1'']]
   \<and> isHiding (loadingScreen (state_of (loadScreen sample_env ''game2'' initial_state)))
   \<and> reports_of_kind GAME_INITIALIZATION (state_of (loadScreen sample_env ''game2'' initial_state))
       = [module_failure_report]"
proof -
  let ?entry = "\<lparr>script = ''./games/game2/game2.js'', style = ''games/game2/game2.css''\<rparr>"
  have h: "''game2'' \<noteq> ''home''"
      "map_of (games sample_env) ''game2'' = Some ?entry"
      "import_module sample_env (script ?entry)
         = ImportRejected (ErrorValue (OtherError ''Failed to fetch module''))"
      "distinct (Object_keys (games sample_env))"
      "plain_keys sample_env"
      "normalizePath (style ?entry) \<noteq> []"
    by (simp_all add: Object_keys_def sample_env_def sample_games_def plain_keys_def
        markup_plain_def markup_special_def selector_plain_def selector_special_def string_eval)
  have floors: "map click_listeners (floor_elements (wired_home sample_env))
       = [[''game3''], [''game2''], [''game1'']]"
    by (simp add: wired_home_def wired_floor_def floor_element_def home_frame_def
        add_click_listener_def Object_keys_def sample_env_fields sample_games_def
        has_class_def class_tokens_def is_html_space_def)
  from loadScreen_import_rejected_recovers_home [OF h, of initial_state] obtain s' where
      "loadScreen sample_env ''game2'' initial_state = Normal s'"
      "body s' = wired_home sample_env" "isHiding (loadingScreen s')"
      "reports_of_kind GAME_INITIALIZATION s'
         = reports_of_kind GAME_INITIALIZATION initial_state @ [module_failure_report]"
    by blast
  then show ?thesis
    using h floors by (simp add: reports_of_kind_def initial_state_def)
qed

text \<open>
  The claim as stated fails when the import is rejected with \<open>undefined\<close> (a module
  whose top level throws it): the inner \<open>catch\<close> raises a \<open>TypeError\<close> on
  \<open>error.message\<close> before it has built its \<open>GameError\<close>, so the one report of the call
  is that \<open>TypeError\<close> and no \<open>GAME_INITIALIZATION\<close> error is reported.
\<close>

theorem loadScreen_import_rejected_counterexample:
  "map_of (games rejecting_env) ''game2''
      = Some \<lparr>script = ''./games/game2/game2.js'', style = ''games/game2/game2.css''\<rparr>
   \<and> import_module rejecting_env ''./games/game2/game2.js'' = ImportRejected NullOrUndefined
   \<and> reports (state_of (loadScreen rejecting_env ''game2'' initial_state))
       = [\<lparr>report_context = ''app.loadScreen'', report_error = type_error\<rparr>]
   \<and> reports_of_kind GAME_INITIALIZATION
        (state_of (loadScreen rejecting_env ''game2'' initial_state)) = []"
proof -
  have home: "show_home rejecting_env u
           = Normal (u\<lparr>screens_home := Some (generateHomeScreen rejecting_env),
                       body := wired_home rejecting_env\<rparr>)" for u
    by (rule show_home_wires;
        simp add: plain_keys_def rejecting_env_fields sample_games_def
          Object_keys_def markup_plain_def markup_special_def selector_plain_def
          selector_special_def)
  have "reports (state_of (loadScreen rejecting_env ''game2'' initial_state))
       = [\<lparr>report_context = ''app.loadScreen'', report_error = type_error\<rparr>]"
    by (simp add: loadScreen_eval rejecting_env_fields home)
  then show ?thesis
    by (simp add: reports_of_kind_def type_error_def rejecting_env_fields sample_games_def)
qed

section \<open>Unloading\<close>

lemma untrackCSS_frame:
  "head_links (untrackCSS n s) = head_links s"
  "warnings (untrackCSS n s) = warnings s"
  "reports (untrackCSS n s) = reports s"
  "body (untrackCSS n s) = body s"
  by (simp_all add: untrackCSS_def)

lemma unload_each_no_match:
  "\<not> list_ex (href_includes E name) ls \<Longrightarrow> unload_each E name ls acc = acc"
  by (induction E name ls acc rule: unload_each.induct) auto

lemma unload_each_links:
  "head_links (fst (unload_each E name ls (s, b)))
     = fold remove1 (filter (href_includes E name) ls) (head_links s)"
  by (induction E name ls "(s, b)" arbitrary: s b rule: unload_each.induct)
     (auto simp: untrackCSS_frame)

lemma unload_each_found:
  "snd (unload_each E name ls (s, b)) = (b \<or> list_ex (href_includes E name) ls)"
  by (induction E name ls "(s, b)" arbitrary: s b rule: unload_each.induct) auto

lemma mset_fold_remove1: "mset (fold remove1 xs ys) = mset ys - mset xs"
  by (induction xs arbitrary: ys) auto

text \<open>After the loop no stylesheet link of the head matches the name any more.\<close>

lemma unload_each_removes_all:
  "\<not> list_ex (href_includes E name)
       (stylesheet_links (fst (unload_each E name (stylesheet_links s) (s, b))))"
proof
  let ?r = "head_links (fst (unload_each E name (stylesheet_links s) (s, b)))"
  let ?P = "\<lambda>l. href_includes E name l"
  let ?S = "\<lambda>l. link_rel l = ''stylesheet''"
  assume "list_ex ?P (stylesheet_links (fst (unload_each E name (stylesheet_links s) (s, b))))"
  then obtain l where l: "l \<in> set ?r" "?S l" "?P l"
    by (auto simp: list_ex_iff stylesheet_links_def)
  have "mset ?r = mset (head_links s) - mset (filter ?P (filter ?S (head_links s)))"
    by (simp add: unload_each_links mset_fold_remove1 stylesheet_links_def)
  then have "count (mset ?r) l = count (mset (head_links s)) l
        - count (mset (filter ?P (filter ?S (head_links s)))) l"
    by simp
  also have "\<dots> = 0" using l(2,3) by simp
  finally show False using l(1) by (simp add: count_eq_zero_iff)
qed

text \<open>
  Claim C4, as the code has it. For every non-empty name: when no stylesheet link
  matches it, the documented \<open>unloadCSS\<close> returns, and all it does is write one
  \<open>console.warn\<close> line (nothing goes to \<open>handleError\<close>, no message is shown);
  a second \<open>unloadCSS\<close> of the name straight after a first one, from any state, is such a
  call: it returns and only adds the warning. The copy at \<open>src/utils/helpers.js\<close> also
  returns when no link matches, but hands a \<open>RESOURCE\<close> error \<open>CSS file not found\<close> to
  \<open>handleError\<close>, which logs it and shows the user-facing message.
\<close>

theorem unloadCSS_no_match_warns:
  assumes "filename \<noteq> []"
  shows "(\<not> list_ex (href_includes E (strip_leading_slash filename)) (stylesheet_links s) \<longrightarrow>
            unloadCSS E filename s
              = Normal (s\<lparr>warnings := warnings s
                             @ [''CSS file not found: '' @ strip_leading_slash filename]\<rparr>))
       \<and> (\<exists>s1. unloadCSS E filename s = Normal s1
             \<and> unloadCSS E filename s1
                 = Normal (s1\<lparr>warnings := warnings s1
                                @ [''CSS file not found: '' @ strip_leading_slash filename]\<rparr>))
       \<and> (\<not> list_ex (href_includes E filename) (stylesheet_links s) \<longrightarrow>
            unloadCSS_helpers E filename s
              = Normal (showUserFriendlyError MsgMissingResources
                  (s\<lparr>reports := reports s
                        @ [\<lparr>report_context = ''helpers.unloadCSS'',
                            report_error = GameError ''CSS file not found'' (Some RESOURCE)\<rparr>]\<rparr>)))"
proof -
  let ?n = "strip_leading_slash filename"
  have warn: "unloadCSS E filename u
              = Normal (u\<lparr>warnings := warnings u @ [''CSS file not found: '' @ ?n]\<rparr>)"
    if "\<not> list_ex (href_includes E ?n) (stylesheet_links u)" for u
    using assms that by (simp add: unloadCSS_def Let_def unload_each_no_match)
  have "\<exists>s1. unloadCSS E filename s = Normal s1
             \<and> \<not> list_ex (href_includes E ?n) (stylesheet_links s1)"
  proof (cases "list_ex (href_includes E ?n) (stylesheet_links s)")
    case False
    with warn [OF False] show ?thesis by (simp add: stylesheet_links_def)
  next
    case True
    let ?r = "unload_each E ?n (stylesheet_links s) (s, False)"
    have "snd ?r" using True by (simp add: unload_each_found)
    then have "unloadCSS E filename s = Normal (fst ?r)"
      using assms by (simp add: unloadCSS_def Let_def case_prod_beta)
    then show ?thesis using unload_each_removes_all [of E ?n s False] by simp
  qed
  then obtain s1 where s1: "unloadCSS E filename s = Normal s1"
       "\<not> list_ex (href_includes E ?n) (stylesheet_links s1)" by blast
  have helpers: "unloadCSS_helpers E filename s
              = Normal (showUserFriendlyError MsgMissingResources
                  (s\<lparr>reports := reports s
                        @ [\<lparr>report_context = ''helpers.unloadCSS'',
                            report_error = GameError ''CSS file not found'' (Some RESOURCE)\<rparr>]\<rparr>))"
    if "\<not> list_ex (href_includes E filename) (stylesheet_links s)"
    using assms that by (simp add: unloadCSS_helpers_def unload_each_no_match handleError_None)
  show ?thesis using warn [of s] s1 warn [OF s1(2)] helpers by blast
qed

theorem unloadCSS_no_match_warns_witness:
  "''style.css'' \<noteq> []
   \<and> ensureCSS sample_env ''style.css'' initial_state = Normal style_loaded
   \<and> unloadCSS sample_env ''style.css'' style_loaded = Normal initial_state
   \<and> \<not> list_ex (href_includes sample_env (strip_leading_slash ''style.css''))
         (stylesheet_links initial_state)
   \<and> unloadCSS sample_env ''style.css'' initial_state
       = Normal (initial_state\<lparr>warnings := [''CSS file not found: style.css'']\<rparr>)
   \<and> reports (state_of (unloadCSS_helpers sample_env ''style.css'' initial_state))
       = [\<lparr>report_context = ''helpers.unloadCSS'',
           report_error = GameError ''CSS file not found'' (Some RESOURCE)\<rparr>]"
proof -
  have h: "''style.css'' \<noteq> []" by simp
  have none: "\<not> list_ex (href_includes sample_env (strip_leading_slash ''style.css''))
         (stylesheet_links initial_state)"
      "\<not> list_ex (href_includes sample_env ''style.css'') (stylesheet_links initial_state)"
    by (simp_all add: stylesheet_links_def initial_state_def)
  have first: "unloadCSS sample_env ''style.css'' style_loaded = Normal initial_state"
    by (simp add: unloadCSS_def style_loaded_def initial_state_def stylesheet_links_def
        href_includes_def sample_env_def strip_leading_slash_def untrackCSS_def set_has_def
        set_delete_def)
  have load: "ensureCSS sample_env ''style.css'' initial_state = Normal style_loaded"
    by (simp add: ensureCSS_def normalizePath_samples set_has_def existingLink_def set_add_def
        initial_state_def style_loaded_def sample_env_def Let_def)
  from unloadCSS_no_match_warns [OF h, of sample_env initial_state] none
  have "unloadCSS sample_env ''style.css'' initial_state
       = Normal (initial_state\<lparr>warnings := warnings initial_state
            @ [''CSS file not found: '' @ strip_leading_slash ''style.css'']\<rparr>)"
     "unloadCSS_helpers sample_env ''style.css'' initial_state
       = Normal (showUserFriendlyError MsgMissingResources
                  (initial_state\<lparr>reports := reports initial_state
                        @ [\<lparr>report_context = ''helpers.unloadCSS'',
                            report_error = GameError ''CSS file not found'' (Some RESOURCE)\<rparr>]\<rparr>))"
    by blast+
  then show ?thesis
    using h none(1) first load
    by (simp add: strip_leading_slash_def showUserFriendlyError_frame initial_state_def)
qed

text \<open>
  The claim as stated fails for the empty name, which both copies refuse with a
  \<open>RESOURCE\<close> error handed to \<open>handleError\<close>, and, in the copy at
  \<open>src/utils/helpers.js\<close>, for every name that matches no link: in both cases the
  user-facing message is shown, although no link matches.
\<close>

theorem unloadCSS_no_match_counterexample:
  "stylesheet_links initial_state = []
   \<and> map report_error (reports (state_of (unloadCSS sample_env [] initial_state)))
       = [GameError ''No filename provided for CSS unloading'' (Some RESOURCE)]
   \<and> body (state_of (unloadCSS sample_env [] initial_state)) = [ErrorContainer MsgMissingResources]
   \<and> map report_error (reports (state_of (unloadCSS_helpers sample_env ''style.css'' initial_state)))
       = [GameError ''CSS file not found'' (Some RESOURCE)]
   \<and> body (state_of (unloadCSS_helpers sample_env ''style.css'' initial_state))
       = [ErrorContainer MsgMissingResources]"
  by (simp add: unloadCSS_def unloadCSS_helpers_def stylesheet_links_def initial_state_def
      handleError_def showUserFriendlyError_def)

section \<open>Shuffling\<close>

text \<open>A random number below 1 gives an index within the part of the array still to shuffle.\<close>

lemma random_index_in_range:
  assumes "0 \<le> r" "r < 1"
  shows "nat \<lfloor>r * real (Suc i + 1)\<rfloor> \<le> Suc i"
proof -
  have "r * real (Suc i + 1) < real (Suc i + 1)"
    using assms by (simp add: mult_less_cancel_right1 del: of_nat_Suc of_nat_add)
  then have "\<lfloor>r * real (Suc i + 1)\<rfloor> < int (Suc i + 1)"
    by (simp add: floor_less_iff del: of_nat_Suc of_nat_add)
  then show ?thesis by linarith
qed

lemma swap_elements_mset:
  "i < length xs \<Longrightarrow> j < length xs \<Longrightarrow> mset (swap_elements i j xs) = mset xs"
  by (simp add: swap_elements_def mset_swap)

lemma swap_elements_length: "length (swap_elements i j xs) = length xs"
  by (simp add: swap_elements_def)

lemma shuffle_loop_perm:
  "random_source rnd \<Longrightarrow> i < length xs \<Longrightarrow>
     mset (shuffle_loop rnd k i xs) = mset xs \<and> length (shuffle_loop rnd k i xs) = length xs"
proof (induction i arbitrary: k xs)
  case 0
  then show ?case by simp
next
  case (Suc i)
  let ?j = "nat \<lfloor>rnd k * real (Suc i + 1)\<rfloor>"
  have "0 \<le> rnd k" "rnd k < 1" using Suc.prems(1) by (simp_all add: random_source_def)
  then have "?j \<le> Suc i" by (rule random_index_in_range)
  with Suc.prems(2) have j: "?j < length xs" by simp
  have "i < length (swap_elements (Suc i) ?j xs)"
    using Suc.prems(2) by (simp add: swap_elements_length)
  from Suc.IH [OF Suc.prems(1) this]
  show ?case
    using swap_elements_mset [OF Suc.prems(2) j] by (simp add: Let_def swap_elements_length)
qed

text \<open>
  Claim C9. With \<open>Math.random\<close> returning numbers from 0 up to but excluding 1,
  \<open>shuffleArray\<close> returns the address of the array it was given; the array at that
  address has the length it had and the same elements with the same multiplicities; an
  array of at most one element is unchanged; and no other array of the store is touched.
\<close>

theorem shuffleArray_permutation:
  assumes "random_source rnd"
  shows "fst (shuffleArray rnd a store) = a
       \<and> length (snd (shuffleArray rnd a store) a) = length (store a)
       \<and> mset (snd (shuffleArray rnd a store) a) = mset (store a)
       \<and> (length (store a) \<le> 1 \<longrightarrow> snd (shuffleArray rnd a store) a = store a)
       \<and> (\<forall>b. b \<noteq> a \<longrightarrow> snd (shuffleArray rnd a store) b = store b)"
proof (cases "store a = []")
  case True
  then show ?thesis by (simp add: shuffleArray_def)
next
  case False
  then have "length (store a) - 1 < length (store a)" by simp
  from shuffle_loop_perm [OF assms this, of 0]
  have "mset (shuffle_loop rnd 0 (length (store a) - 1) (store a)) = mset (store a)"
    and "length (shuffle_loop rnd 0 (length (store a) - 1) (store a)) = length (store a)"
    by simp_all
  moreover have "length (store a) \<le> 1
      \<longrightarrow> shuffle_loop rnd 0 (length (store a) - 1) (store a) = store a"
  proof
    assume "length (store a) \<le> 1"
    then have "length (store a) - 1 = 0" by simp
    then show "shuffle_loop rnd 0 (length (store a) - 1) (store a) = store a" by simp
  qed
  ultimately show ?thesis by (simp add: shuffleArray_def)
qed

theorem shuffleArray_permutation_witness:
  "random_source (\<lambda>k. 1 / 2)
   \<and> fst (shuffleArray (\<lambda>k. 1 / 2) 0 (\<lambda>a. if a = 0 then [1, 2, 3 :: nat] else [7])) = 0
   \<and> snd (shuffleArray (\<lambda>k. 1 / 2) 0 (\<lambda>a. if a = 0 then [1, 2, 3 :: nat] else [7])) 0 = [1, 3, 2]
   \<and> mset (snd (shuffleArray (\<lambda>k. 1 / 2) 0 (\<lambda>a. if a = 0 then [1, 2, 3 :: nat] else [7])) 0)
       = mset [1, 2, 3]
   \<and> snd (shuffleArray (\<lambda>k. 1 / 2) 0 (\<lambda>a. if a = 0 then [1, 2, 3 :: nat] else [7])) 1 = [7]
   \<and> snd (shuffleArray (\<lambda>k. 1 / 2) 1 (\<lambda>a. if a = 0 then [1, 2, 3 :: nat] else [7])) 1 = [7]"
proof -
  have h: "random_source (\<lambda>k. 1 / 2)" by (simp add: random_source_def)
  have run: "snd (shuffleArray (\<lambda>k. 1 / 2) 0 (\<lambda>a. if a = 0 then [1, 2, 3 :: nat] else [7])) 0
      = [1, 3, 2]"
    by (simp add: shuffleArray_def numeral_2_eq_2 swap_elements_def)
  from shuffleArray_permutation [OF h, of 0 "\<lambda>a. if a = 0 then [1, 2, 3 :: nat] else [7]"]
    shuffleArray_permutation [OF h, of 1 "\<lambda>a. if a = 0 then [1, 2, 3 :: nat] else [7]"]
  show ?thesis using h run by simp
qed

section \<open>The popup singleton\<close>

lemma new_PopUp_instance:
  "module_instance m = Some a \<Longrightarrow> new_PopUp m = (a, m\<lparr>objects := objects m @ [None]\<rparr>)"
  by (simp add: new_PopUp_def)

lemma new_PopUp_sets_instance:
  "module_instance (snd (new_PopUp m)) = Some (fst (new_PopUp m))"
  by (simp add: new_PopUp_def Let_def split: option.splits)

text \<open>
  Once the module variable is set, every constructor invocation returns it, and leaves
  the variable, the objects allocated so far and the sound requests as they are.
\<close>

lemma construct_all_instance:
  "module_instance m = Some a \<Longrightarrow>
     fst (construct_all n m) = replicate n a
     \<and> module_instance (snd (construct_all n m)) = Some a
     \<and> take (length (objects m)) (objects (snd (construct_all n m))) = objects m
     \<and> popUpSounds_requests (snd (construct_all n m)) = popUpSounds_requests m"
proof (induction n arbitrary: m)
  case 0
  then show ?case by simp
next
  case (Suc n)
  let ?m1 = "m\<lparr>objects := objects m @ [None]\<rparr>"
  have inst: "module_instance ?m1 = Some a" using Suc.prems by simp
  note IH = Suc.IH [OF inst]
  have "take (length (objects m)) (objects (snd (construct_all n ?m1))) = objects m"
  proof -
    have "take (length (objects m))
            (take (length (objects ?m1)) (objects (snd (construct_all n ?m1))))
          = take (length (objects m)) (objects ?m1)"
      using IH by simp
    then show ?thesis by (simp add: min_def)
  qed
  with IH Suc.prems show ?case
    by (simp add: new_PopUp_instance case_prod_beta)
qed

text \<open>
  Claim C10. In every sequence of \<open>PopUp\<close> constructor invocations, from any state of
  the module, each invocation returns the object the first one returned. Counted from
  the loading of the module, that object is the one the first invocation initialised: its
  fields are untouched by the later invocations, and the popup sounds were requested
  once.
\<close>

theorem PopUp_singleton:
  "fst (construct_all (Suc n) m) = replicate (Suc n) (fst (new_PopUp m))
   \<and> (m = popUp_module_loaded \<longrightarrow>
        objects (snd (construct_all (Suc n) m)) ! fst (new_PopUp m) = Some constructed_PopUp
      \<and> popUpSounds_requests (snd (construct_all (Suc n) m)) = 1)"
proof -
  let ?a = "fst (new_PopUp m)" and ?m1 = "snd (new_PopUp m)"
  note rest = construct_all_instance [OF new_PopUp_sets_instance, of n m]
  have all: "fst (construct_all (Suc n) m) = replicate (Suc n) ?a"
    using rest by (simp add: case_prod_beta)
  have "objects (snd (construct_all (Suc n) m)) ! ?a = Some constructed_PopUp
      \<and> popUpSounds_requests (snd (construct_all (Suc n) m)) = 1" if "m = popUp_module_loaded"
  proof -
    have m1: "?a = 0" "objects ?m1 = [Some constructed_PopUp]" "popUpSounds_requests ?m1 = 1"
      using that by (simp_all add: new_PopUp_def popUp_module_loaded_def)
    have "take 1 (objects (snd (construct_all n ?m1))) = [Some constructed_PopUp]"
      using rest m1 by simp
    then have "objects (snd (construct_all n ?m1)) ! 0 = Some constructed_PopUp"
      by (metis nth_take less_one nth_Cons_0)
    with rest m1 show ?thesis by (simp add: case_prod_beta)
  qed
  with all show ?thesis by blast
qed

theorem PopUp_singleton_witness:
  "fst (new_PopUp popUp_module_loaded) = 0
   \<and> fst (construct_all 3 popUp_module_loaded) = [0, 0, 0]
   \<and> objects (snd (construct_all 3 popUp_module_loaded)) ! 0 = Some constructed_PopUp
   \<and> popUpSounds_requests (snd (construct_all 3 popUp_module_loaded)) = 1"
proof -
  have first: "fst (new_PopUp popUp_module_loaded) = 0"
    by (simp add: new_PopUp_def popUp_module_loaded_def)
  have three: "(3::nat) = Suc 2" by simp
  from PopUp_singleton [of 2 popUp_module_loaded] first show ?thesis
    unfolding three by (simp add: numeral_2_eq_2)
qed

end
